theory Spec2Isabelle
  imports Main "HOL-Library.Sublist"
begin

section \<open>The RabbitMQ management REST client (rabbitmq_rest_client.go)\<close>

text \<open>
  The client fetches six resources of the broker over HTTP, decodes them, and either
  hands them out one by one (the per-resource accessors) or assembles them in one
  \<open>BrokerInfo\<close> value. This theory embeds \<open>getResource\<close>, \<open>delResource\<close>, the six
  \<open>get...\<close> helpers, \<open>BrokerInfo\<close>, the accessors and \<open>CloseConnection\<close>.

  What the Go code takes from its libraries is a parameter of the model:
  \<^item> the payload structs (\<open>RabbitOverview\<close>, \<open>RabbitConnection\<close>, ...) are only built
    by \<open>reflect.New\<close>, filled by \<open>json.Unmarshal\<close> and copied; the functions never look
    inside them. They are the type variables \<open>'ov\<close>, \<open>'cn\<close>, \<open>'ex\<close>, \<open>'qu\<close>, \<open>'cs\<close>,
    \<open>'bi\<close>. A slice is a list; the nil slice and the empty slice are both \<open>[]\<close>;
  \<^item> \<open>http.Client.Get\<close> and \<open>http.Client.Do\<close> are the two fields of the record
    \<open>http_Client\<close>: any function from the request to a transport error or a response;
  \<^item> \<open>url.Parse\<close> (inside \<open>http.NewRequest\<close>) and \<open>json.Unmarshal\<close> at each payload
    type are the fields of the record \<open>golib\<close>.
\<close>

subsection \<open>Data\<close>

text \<open>Go's \<open>error\<close> interface: the dynamic type of the value tells where it was made.\<close>

datatype error =
    TransportError string   \<comment> \<open>returned by \<open>http.Client.Get\<close> / \<open>http.Client.Do\<close>\<close>
  | RequestError string     \<comment> \<open>returned by \<open>http.NewRequest\<close>\<close>
  | errorString string      \<comment> \<open>\<open>errors.New(text)\<close>\<close>
  | UnmarshalError string   \<comment> \<open>returned by \<open>json.Unmarshal\<close>\<close>

text \<open>The method \<open>Error()\<close>: the text of an error.\<close>

fun Error :: "error \<Rightarrow> string" where
  "Error (TransportError m) = m"
| "Error (RequestError m) = m"
| "Error (errorString m) = m"
| "Error (UnmarshalError m) = m"

text \<open>\<open>http.Request\<close> and \<open>http.Response\<close>, with the fields the client reads or sets.\<close>

record Request =
  Method :: string
  URL :: string

record Response =
  StatusCode :: int
  Status :: string
  Body :: string

record http_Client =
  Get :: "string \<Rightarrow> string + Response"
  Do :: "Request \<Rightarrow> string + Response"

record RabbitHTTPClient =
  uri :: string
  client :: http_Client

text \<open>
  \<open>reflect.Type\<close>, for the six types the client asks for, and \<open>interface{}\<close>
  holding nil or a pointer to a value of one of them.
\<close>

datatype rtype =
    type_RabbitOverview
  | type_RabbitConnections
  | type_RabbitExchanges
  | type_RabbitQueues
  | type_RabbitConsumers
  | type_RabbitBindings

datatype ('ov, 'cn, 'ex, 'qu, 'cs, 'bi) iface =
    nil
  | ptr_RabbitOverview 'ov
  | ptr_RabbitConnections "'cn list"
  | ptr_RabbitExchanges "'ex list"
  | ptr_RabbitQueues "'qu list"
  | ptr_RabbitConsumers "'cs list"
  | ptr_RabbitBindings "'bi list"

record httpRequest =
  uri_req :: string
  t_req :: rtype    \<comment> \<open>type of expected result\<close>

record ('ov, 'cn, 'ex, 'qu, 'cs, 'bi) httpResponse =
  result :: "('ov, 'cn, 'ex, 'qu, 'cs, 'bi) iface"
  err :: "error option"

text \<open>
  The library functions the client calls. \<open>url_Parse\<close> gives the error text when the
  URL does not parse. Each \<open>Unmarshal_...\<close> is \<open>json.Unmarshal(data, r)\<close> at one type of
  \<open>r\<close>: it takes the value \<open>r\<close> points to and returns the value it leaves there with
  the error text, if any. \<open>zero_RabbitOverview\<close> is the struct's zero value.
\<close>

record ('ov, 'cn, 'ex, 'qu, 'cs, 'bi) golib =
  url_Parse :: "string \<Rightarrow> string option"
  zero_RabbitOverview :: 'ov
  Unmarshal_RabbitOverview :: "string \<Rightarrow> 'ov \<Rightarrow> 'ov \<times> string option"
  Unmarshal_RabbitConnections :: "string \<Rightarrow> 'cn list \<Rightarrow> 'cn list \<times> string option"
  Unmarshal_RabbitExchanges :: "string \<Rightarrow> 'ex list \<Rightarrow> 'ex list \<times> string option"
  Unmarshal_RabbitQueues :: "string \<Rightarrow> 'qu list \<Rightarrow> 'qu list \<times> string option"
  Unmarshal_RabbitConsumers :: "string \<Rightarrow> 'cs list \<Rightarrow> 'cs list \<times> string option"
  Unmarshal_RabbitBindings :: "string \<Rightarrow> 'bi list \<Rightarrow> 'bi list \<times> string option"

text \<open>\<open>reflect.New(t).Interface()\<close>: a pointer to the zero value of \<open>t\<close>.\<close>

fun reflect_New ::
  "('ov, 'cn, 'ex, 'qu, 'cs, 'bi) golib \<Rightarrow> rtype \<Rightarrow> ('ov, 'cn, 'ex, 'qu, 'cs, 'bi) iface" where
  "reflect_New L type_RabbitOverview = ptr_RabbitOverview (zero_RabbitOverview L)"
| "reflect_New L type_RabbitConnections = ptr_RabbitConnections []"
| "reflect_New L type_RabbitExchanges = ptr_RabbitExchanges []"
| "reflect_New L type_RabbitQueues = ptr_RabbitQueues []"
| "reflect_New L type_RabbitConsumers = ptr_RabbitConsumers []"
| "reflect_New L type_RabbitBindings = ptr_RabbitBindings []"

text \<open>The dynamic type of an interface value (\<open>None\<close> for nil).\<close>

fun type_of :: "('ov, 'cn, 'ex, 'qu, 'cs, 'bi) iface \<Rightarrow> rtype option" where
  "type_of nil = None"
| "type_of (ptr_RabbitOverview v) = Some type_RabbitOverview"
| "type_of (ptr_RabbitConnections v) = Some type_RabbitConnections"
| "type_of (ptr_RabbitExchanges v) = Some type_RabbitExchanges"
| "type_of (ptr_RabbitQueues v) = Some type_RabbitQueues"
| "type_of (ptr_RabbitConsumers v) = Some type_RabbitConsumers"
| "type_of (ptr_RabbitBindings v) = Some type_RabbitBindings"

text \<open>
  \<open>json.Unmarshal(data, r)\<close> decodes at the type \<open>r\<close> points to; on a nil \<open>r\<close> it
  returns an \<open>InvalidUnmarshalError\<close>.
\<close>

fun json_Unmarshal ::
  "('ov, 'cn, 'ex, 'qu, 'cs, 'bi) golib \<Rightarrow> string \<Rightarrow> ('ov, 'cn, 'ex, 'qu, 'cs, 'bi) iface
     \<Rightarrow> ('ov, 'cn, 'ex, 'qu, 'cs, 'bi) iface \<times> string option" where
  "json_Unmarshal L data nil = (nil, Some ''json: Unmarshal(nil)'')"
| "json_Unmarshal L data (ptr_RabbitOverview v) =
     apfst ptr_RabbitOverview (Unmarshal_RabbitOverview L data v)"
| "json_Unmarshal L data (ptr_RabbitConnections v) =
     apfst ptr_RabbitConnections (Unmarshal_RabbitConnections L data v)"
| "json_Unmarshal L data (ptr_RabbitExchanges v) =
     apfst ptr_RabbitExchanges (Unmarshal_RabbitExchanges L data v)"
| "json_Unmarshal L data (ptr_RabbitQueues v) =
     apfst ptr_RabbitQueues (Unmarshal_RabbitQueues L data v)"
| "json_Unmarshal L data (ptr_RabbitConsumers v) =
     apfst ptr_RabbitConsumers (Unmarshal_RabbitConsumers L data v)"
| "json_Unmarshal L data (ptr_RabbitBindings v) =
     apfst ptr_RabbitBindings (Unmarshal_RabbitBindings L data v)"

text \<open>
  \<open>http.NewRequest(method, url, nil)\<close> for a valid method: it fails when the URL does
  not parse and otherwise builds the request.
\<close>

definition http_NewRequest ::
  "('ov, 'cn, 'ex, 'qu, 'cs, 'bi) golib \<Rightarrow> string \<Rightarrow> string \<Rightarrow> string + Request" where
  "http_NewRequest L method url =
     (case url_Parse L url of
        Some e \<Rightarrow> Inl e
      | None \<Rightarrow> Inr \<lparr>Method = method, URL = url\<rparr>)"

subsection \<open>getResource and delResource\<close>

text \<open>
  \<open>getResource\<close> makes a channel, starts a goroutine and returns the channel. A
  channel is modelled by the messages its goroutine sends on it, in order: a receive
  takes the first one and blocks for ever on \<open>[]\<close>. The goroutine sends once on each
  of its four paths and returns.
\<close>

definition getResource ::
  "('ov, 'cn, 'ex, 'qu, 'cs, 'bi) golib \<Rightarrow> RabbitHTTPClient \<Rightarrow> httpRequest
     \<Rightarrow> ('ov, 'cn, 'ex, 'qu, 'cs, 'bi) httpResponse list" where
  "getResource L s request =
     (let r = reflect_New L (t_req request) in
      case Get (client s) (uri_req request) of
        Inl e \<Rightarrow> [\<lparr>result = r, err = Some (TransportError e)\<rparr>]
      | Inr resp \<Rightarrow>
          if StatusCode resp \<noteq> 200
          then [\<lparr>result = r, err = Some (errorString (Status resp))\<rparr>]
          else (case json_Unmarshal L (Body resp) r of
                  (r', Some e) \<Rightarrow> [\<lparr>result = r', err = Some (UnmarshalError e)\<rparr>]
                | (r', None) \<Rightarrow> [\<lparr>result = r', err = None\<rparr>]))"

text \<open>
  \<open>delResource\<close> returns the error (\<open>None\<close> for nil); the model also returns the
  requests it handed to \<open>client.Do\<close>.
\<close>

definition delResource ::
  "('ov, 'cn, 'ex, 'qu, 'cs, 'bi) golib \<Rightarrow> RabbitHTTPClient \<Rightarrow> string
     \<Rightarrow> Request list \<times> error option" where
  "delResource L s uri' =
     (case http_NewRequest L ''DELETE'' uri' of
        Inl e \<Rightarrow> ([], Some (RequestError e))
      | Inr req \<Rightarrow>
          (case Do (client s) req of
             Inl e \<Rightarrow> ([req], Some (TransportError e))
           | Inr resp \<Rightarrow>
               if StatusCode resp \<noteq> 200 \<and> StatusCode resp \<noteq> 204
               then ([req], Some (errorString (Status resp)))
               else ([req], None)))"

subsection \<open>The six requests\<close>

definition getConnections ::
  "('ov, 'cn, 'ex, 'qu, 'cs, 'bi) golib \<Rightarrow> RabbitHTTPClient
     \<Rightarrow> ('ov, 'cn, 'ex, 'qu, 'cs, 'bi) httpResponse list" where
  "getConnections L s =
     getResource L s \<lparr>uri_req = uri s @ ''/connections'', t_req = type_RabbitConnections\<rparr>"

definition getOverview ::
  "('ov, 'cn, 'ex, 'qu, 'cs, 'bi) golib \<Rightarrow> RabbitHTTPClient
     \<Rightarrow> ('ov, 'cn, 'ex, 'qu, 'cs, 'bi) httpResponse list" where
  "getOverview L s =
     getResource L s \<lparr>uri_req = uri s @ ''/overview'', t_req = type_RabbitOverview\<rparr>"

definition getExchanges ::
  "('ov, 'cn, 'ex, 'qu, 'cs, 'bi) golib \<Rightarrow> RabbitHTTPClient
     \<Rightarrow> ('ov, 'cn, 'ex, 'qu, 'cs, 'bi) httpResponse list" where
  "getExchanges L s =
     getResource L s \<lparr>uri_req = uri s @ ''/exchanges'', t_req = type_RabbitExchanges\<rparr>"

definition getQueues ::
  "('ov, 'cn, 'ex, 'qu, 'cs, 'bi) golib \<Rightarrow> RabbitHTTPClient
     \<Rightarrow> ('ov, 'cn, 'ex, 'qu, 'cs, 'bi) httpResponse list" where
  "getQueues L s =
     getResource L s \<lparr>uri_req = uri s @ ''/queues'', t_req = type_RabbitQueues\<rparr>"

definition getConsumers ::
  "('ov, 'cn, 'ex, 'qu, 'cs, 'bi) golib \<Rightarrow> RabbitHTTPClient
     \<Rightarrow> ('ov, 'cn, 'ex, 'qu, 'cs, 'bi) httpResponse list" where
  "getConsumers L s =
     getResource L s \<lparr>uri_req = uri s @ ''/consumers'', t_req = type_RabbitConsumers\<rparr>"

definition getBindings ::
  "('ov, 'cn, 'ex, 'qu, 'cs, 'bi) golib \<Rightarrow> RabbitHTTPClient
     \<Rightarrow> ('ov, 'cn, 'ex, 'qu, 'cs, 'bi) httpResponse list" where
  "getBindings L s =
     getResource L s \<lparr>uri_req = uri s @ ''/bindings'', t_req = type_RabbitBindings\<rparr>"

subsection \<open>BrokerInfo\<close>

record ('ov, 'cn, 'ex, 'qu, 'cs, 'bi) BrokerInfo =
  Overview :: 'ov
  Connections :: "'cn list"
  Exchanges :: "'ex list"
  Queues :: "'qu list"
  Consumers :: "'cs list"
  Bindings :: "'bi list"

text \<open>
  How a call ends: it returns, it panics (a failed type assertion), or it blocks for
  ever in a receive on channels nobody sends on any more.
\<close>

datatype 'a outcome = Return 'a | Panic | Blocked

text \<open>The six channel variables of \<open>BrokerInfo\<close>, which are the cases of its select.\<close>

datatype chan_id = overview | connections | exchanges | queues | consumers | bindings

text \<open>
  What the main goroutine does, in program order: \<open>Go request\<close> is the statement
  \<open>go func() {...}()\<close> of \<open>getResource\<close>, which starts the goroutine that fetches
  \<open>request\<close>; \<open>Recv c\<close> is a receive from the channel variable \<open>c\<close>.
\<close>

datatype event = Go httpRequest | Recv chan_id

text \<open>
  A call of \<open>getResource\<close> as its caller sees it, with the events \<open>es\<close> of the calling
  goroutine so far: the call starts the goroutine for \<open>request\<close> and hands back the
  channel, which carries what that goroutine sends. The six \<open>get...\<close> methods call it
  with their request.
\<close>

definition getResource_call ::
  "('ov, 'cn, 'ex, 'qu, 'cs, 'bi) golib \<Rightarrow> RabbitHTTPClient \<Rightarrow> httpRequest \<Rightarrow> event list
     \<Rightarrow> ('ov, 'cn, 'ex, 'qu, 'cs, 'bi) httpResponse list \<times> event list" where
  "getResource_call L s request es = (getResource L s request, es @ [Go request])"

definition getConnections_call ::
  "('ov, 'cn, 'ex, 'qu, 'cs, 'bi) golib \<Rightarrow> RabbitHTTPClient \<Rightarrow> event list
     \<Rightarrow> ('ov, 'cn, 'ex, 'qu, 'cs, 'bi) httpResponse list \<times> event list" where
  "getConnections_call L s es =
     getResource_call L s
       \<lparr>uri_req = uri s @ ''/connections'', t_req = type_RabbitConnections\<rparr> es"

definition getOverview_call ::
  "('ov, 'cn, 'ex, 'qu, 'cs, 'bi) golib \<Rightarrow> RabbitHTTPClient \<Rightarrow> event list
     \<Rightarrow> ('ov, 'cn, 'ex, 'qu, 'cs, 'bi) httpResponse list \<times> event list" where
  "getOverview_call L s es =
     getResource_call L s \<lparr>uri_req = uri s @ ''/overview'', t_req = type_RabbitOverview\<rparr> es"

definition getExchanges_call ::
  "('ov, 'cn, 'ex, 'qu, 'cs, 'bi) golib \<Rightarrow> RabbitHTTPClient \<Rightarrow> event list
     \<Rightarrow> ('ov, 'cn, 'ex, 'qu, 'cs, 'bi) httpResponse list \<times> event list" where
  "getExchanges_call L s es =
     getResource_call L s \<lparr>uri_req = uri s @ ''/exchanges'', t_req = type_RabbitExchanges\<rparr> es"

definition getQueues_call ::
  "('ov, 'cn, 'ex, 'qu, 'cs, 'bi) golib \<Rightarrow> RabbitHTTPClient \<Rightarrow> event list
     \<Rightarrow> ('ov, 'cn, 'ex, 'qu, 'cs, 'bi) httpResponse list \<times> event list" where
  "getQueues_call L s es =
     getResource_call L s \<lparr>uri_req = uri s @ ''/queues'', t_req = type_RabbitQueues\<rparr> es"

definition getConsumers_call ::
  "('ov, 'cn, 'ex, 'qu, 'cs, 'bi) golib \<Rightarrow> RabbitHTTPClient \<Rightarrow> event list
     \<Rightarrow> ('ov, 'cn, 'ex, 'qu, 'cs, 'bi) httpResponse list \<times> event list" where
  "getConsumers_call L s es =
     getResource_call L s \<lparr>uri_req = uri s @ ''/consumers'', t_req = type_RabbitConsumers\<rparr> es"

definition getBindings_call ::
  "('ov, 'cn, 'ex, 'qu, 'cs, 'bi) golib \<Rightarrow> RabbitHTTPClient \<Rightarrow> event list
     \<Rightarrow> ('ov, 'cn, 'ex, 'qu, 'cs, 'bi) httpResponse list \<times> event list" where
  "getBindings_call L s es =
     getResource_call L s \<lparr>uri_req = uri s @ ''/bindings'', t_req = type_RabbitBindings\<rparr> es"

definition numExpectedResources :: nat where
  "numExpectedResources = 6"

text \<open>\<open>var res httpResponse\<close>: nil result, nil error.\<close>

definition zero_httpResponse :: "('ov, 'cn, 'ex, 'qu, 'cs, 'bi) httpResponse" where
  "zero_httpResponse = \<lparr>result = nil, err = None\<rparr>"

definition zero_BrokerInfo ::
  "('ov, 'cn, 'ex, 'qu, 'cs, 'bi) golib \<Rightarrow> ('ov, 'cn, 'ex, 'qu, 'cs, 'bi) BrokerInfo" where
  "zero_BrokerInfo L =
     \<lparr>Overview = zero_RabbitOverview L, Connections = [], Exchanges = [], Queues = [],
      Consumers = [], Bindings = []\<rparr>"

text \<open>
  One case of the select, on the message \<open>m\<close> received: the new \<open>r\<close> and the value of
  the variable \<open>res\<close> that the loop tests afterwards, or \<open>None\<close> when the type assertion
  panics. The five cases written \<open>case res = <-c\<close> assign the message to \<open>res\<close>. The
  first is written \<open>case res := <-overview\<close>: it declares a new \<open>res\<close> for that case
  alone, and the \<open>res\<close> of the loop keeps its zero value.
\<close>

fun select_case ::
  "chan_id \<Rightarrow> ('ov, 'cn, 'ex, 'qu, 'cs, 'bi) httpResponse
     \<Rightarrow> ('ov, 'cn, 'ex, 'qu, 'cs, 'bi) BrokerInfo
     \<Rightarrow> (('ov, 'cn, 'ex, 'qu, 'cs, 'bi) BrokerInfo
          \<times> ('ov, 'cn, 'ex, 'qu, 'cs, 'bi) httpResponse) option" where
  "select_case overview m r =
     (case result m of
        ptr_RabbitOverview v \<Rightarrow> Some (r\<lparr>Overview := v\<rparr>, zero_httpResponse)
      | _ \<Rightarrow> None)"
| "select_case connections m r =
     (case result m of
        ptr_RabbitConnections v \<Rightarrow> Some (r\<lparr>Connections := v\<rparr>, m)
      | _ \<Rightarrow> None)"
| "select_case exchanges m r =
     (case result m of
        ptr_RabbitExchanges v \<Rightarrow> Some (r\<lparr>Exchanges := v\<rparr>, m)
      | _ \<Rightarrow> None)"
| "select_case queues m r =
     (case result m of
        ptr_RabbitQueues v \<Rightarrow> Some (r\<lparr>Queues := v\<rparr>, m)
      | _ \<Rightarrow> None)"
| "select_case consumers m r =
     (case result m of
        ptr_RabbitConsumers v \<Rightarrow> Some (r\<lparr>Consumers := v\<rparr>, m)
      | _ \<Rightarrow> None)"
| "select_case bindings m r =
     (case result m of
        ptr_RabbitBindings v \<Rightarrow> Some (r\<lparr>Bindings := v\<rparr>, m)
      | _ \<Rightarrow> None)"

text \<open>
  The loop. \<open>ch\<close> gives the messages still to come on each channel. Which ready
  channel a select takes is the scheduler's choice: \<open>sched\<close> lists its choices, and
  a choice whose channel has no message cannot be taken and is passed over. When the
  choices run out the loop waits for ever. The function returns the receives it made
  and how the call ends: with \<open>r\<close> and \<open>err\<close>, the named results.
\<close>

fun BrokerInfo_loop ::
  "(chan_id \<Rightarrow> ('ov, 'cn, 'ex, 'qu, 'cs, 'bi) httpResponse list) \<Rightarrow> chan_id list
     \<Rightarrow> ('ov, 'cn, 'ex, 'qu, 'cs, 'bi) BrokerInfo \<Rightarrow> nat
     \<Rightarrow> event list \<times> (('ov, 'cn, 'ex, 'qu, 'cs, 'bi) BrokerInfo \<times> error option) outcome" where
  "BrokerInfo_loop ch [] r count = ([], Blocked)"
| "BrokerInfo_loop ch (c # sched) r count =
     (case ch c of
        [] \<Rightarrow> BrokerInfo_loop ch sched r count
      | m # ms \<Rightarrow>
          (case select_case c m r of
             None \<Rightarrow> ([Recv c], Panic)
           | Some (r', res) \<Rightarrow>
               if err res \<noteq> None then ([Recv c], Return (r', err res))
               else if count + 1 = numExpectedResources then ([Recv c], Return (r', None))
               else apfst ((#) (Recv c))
                      (BrokerInfo_loop (ch(c := ms)) sched r' (count + 1))))"

text \<open>The six channels, as the function from the select case to its channel.\<close>

fun channels ::
  "'a \<Rightarrow> 'a \<Rightarrow> 'a \<Rightarrow> 'a \<Rightarrow> 'a \<Rightarrow> 'a \<Rightarrow> chan_id \<Rightarrow> 'a" where
  "channels ov cn ex qu cs bi overview = ov"
| "channels ov cn ex qu cs bi connections = cn"
| "channels ov cn ex qu cs bi exchanges = ex"
| "channels ov cn ex qu cs bi queues = qu"
| "channels ov cn ex qu cs bi consumers = cs"
| "channels ov cn ex qu cs bi bindings = bi"

text \<open>
  \<open>BrokerInfo_run\<close> is the whole method with the events of the main goroutine: the
  six calls of lines 129 to 134, each of which adds its event and gives the channel
  that the variable of that name holds, then the loop on these six channels.
  \<open>BrokerInfo\<close> is how it ends.
\<close>

definition BrokerInfo_run ::
  "('ov, 'cn, 'ex, 'qu, 'cs, 'bi) golib \<Rightarrow> RabbitHTTPClient \<Rightarrow> chan_id list
     \<Rightarrow> event list \<times> (('ov, 'cn, 'ex, 'qu, 'cs, 'bi) BrokerInfo \<times> error option) outcome" where
  "BrokerInfo_run L s sched =
     (let (ov, es1) = getOverview_call L s [];
          (cn, es2) = getConnections_call L s es1;
          (ex, es3) = getExchanges_call L s es2;
          (qu, es4) = getQueues_call L s es3;
          (cs, es5) = getConsumers_call L s es4;
          (bi, es6) = getBindings_call L s es5
      in apfst ((@) es6)
           (BrokerInfo_loop (channels ov cn ex qu cs bi) sched (zero_BrokerInfo L) 0))"

definition BrokerInfo ::
  "('ov, 'cn, 'ex, 'qu, 'cs, 'bi) golib \<Rightarrow> RabbitHTTPClient \<Rightarrow> chan_id list
     \<Rightarrow> (('ov, 'cn, 'ex, 'qu, 'cs, 'bi) BrokerInfo \<times> error option) outcome" where
  "BrokerInfo L s sched = snd (BrokerInfo_run L s sched)"

subsection \<open>The accessors and CloseConnection\<close>

text \<open>
  Each accessor receives the one message of its channel, asserts the type of the result
  and returns the value with the error. The record \<open>BrokerInfo\<close> has the fields
  \<open>Connections\<close>, \<open>Overview\<close>, ...; the methods of these names carry the suffix
  \<open>_accessor\<close>.
\<close>

definition Connections_accessor ::
  "('ov, 'cn, 'ex, 'qu, 'cs, 'bi) golib \<Rightarrow> RabbitHTTPClient
     \<Rightarrow> ('cn list \<times> error option) outcome" where
  "Connections_accessor L s =
     (case getConnections L s of
        [] \<Rightarrow> Blocked
      | m # ms \<Rightarrow>
          (case result m of
             ptr_RabbitConnections v \<Rightarrow> Return (v, err m)
           | _ \<Rightarrow> Panic))"

definition Overview_accessor ::
  "('ov, 'cn, 'ex, 'qu, 'cs, 'bi) golib \<Rightarrow> RabbitHTTPClient
     \<Rightarrow> ('ov \<times> error option) outcome" where
  "Overview_accessor L s =
     (case getOverview L s of
        [] \<Rightarrow> Blocked
      | m # ms \<Rightarrow>
          (case result m of
             ptr_RabbitOverview v \<Rightarrow> Return (v, err m)
           | _ \<Rightarrow> Panic))"

definition Exchanges_accessor ::
  "('ov, 'cn, 'ex, 'qu, 'cs, 'bi) golib \<Rightarrow> RabbitHTTPClient
     \<Rightarrow> ('ex list \<times> error option) outcome" where
  "Exchanges_accessor L s =
     (case getExchanges L s of
        [] \<Rightarrow> Blocked
      | m # ms \<Rightarrow>
          (case result m of
             ptr_RabbitExchanges v \<Rightarrow> Return (v, err m)
           | _ \<Rightarrow> Panic))"

definition Queues_accessor ::
  "('ov, 'cn, 'ex, 'qu, 'cs, 'bi) golib \<Rightarrow> RabbitHTTPClient
     \<Rightarrow> ('qu list \<times> error option) outcome" where
  "Queues_accessor L s =
     (case getQueues L s of
        [] \<Rightarrow> Blocked
      | m # ms \<Rightarrow>
          (case result m of
             ptr_RabbitQueues v \<Rightarrow> Return (v, err m)
           | _ \<Rightarrow> Panic))"

definition Consumers_accessor ::
  "('ov, 'cn, 'ex, 'qu, 'cs, 'bi) golib \<Rightarrow> RabbitHTTPClient
     \<Rightarrow> ('cs list \<times> error option) outcome" where
  "Consumers_accessor L s =
     (case getConsumers L s of
        [] \<Rightarrow> Blocked
      | m # ms \<Rightarrow>
          (case result m of
             ptr_RabbitConsumers v \<Rightarrow> Return (v, err m)
           | _ \<Rightarrow> Panic))"

definition Bindings_accessor ::
  "('ov, 'cn, 'ex, 'qu, 'cs, 'bi) golib \<Rightarrow> RabbitHTTPClient
     \<Rightarrow> ('bi list \<times> error option) outcome" where
  "Bindings_accessor L s =
     (case getBindings L s of
        [] \<Rightarrow> Blocked
      | m # ms \<Rightarrow>
          (case result m of
             ptr_RabbitBindings v \<Rightarrow> Return (v, err m)
           | _ \<Rightarrow> Panic))"

text \<open>\<open>CloseConnection\<close> closes a connection by deleting its resource.\<close>

definition CloseConnection ::
  "('ov, 'cn, 'ex, 'qu, 'cs, 'bi) golib \<Rightarrow> RabbitHTTPClient \<Rightarrow> string \<Rightarrow> string
     \<Rightarrow> Request list \<times> error option" where
  "CloseConnection L s conn reason = delResource L s (uri s @ ''/connections/'' @ conn)"

subsection \<open>Notions used in the statements\<close>

text \<open>
  The channels \<open>BrokerInfo\<close> selects on, as it makes them: the fetch behind each select
  case.
\<close>

definition fetches ::
  "('ov, 'cn, 'ex, 'qu, 'cs, 'bi) golib \<Rightarrow> RabbitHTTPClient \<Rightarrow> chan_id
     \<Rightarrow> ('ov, 'cn, 'ex, 'qu, 'cs, 'bi) httpResponse list" where
  "fetches L s =
     channels (getOverview L s) (getConnections L s) (getExchanges L s) (getQueues L s)
       (getConsumers L s) (getBindings L s)"

text \<open>The type each select case asserts, and the field it writes (as an interface value).\<close>

fun case_type :: "chan_id \<Rightarrow> rtype" where
  "case_type overview = type_RabbitOverview"
| "case_type connections = type_RabbitConnections"
| "case_type exchanges = type_RabbitExchanges"
| "case_type queues = type_RabbitQueues"
| "case_type consumers = type_RabbitConsumers"
| "case_type bindings = type_RabbitBindings"

fun field ::
  "chan_id \<Rightarrow> ('ov, 'cn, 'ex, 'qu, 'cs, 'bi) BrokerInfo \<Rightarrow> ('ov, 'cn, 'ex, 'qu, 'cs, 'bi) iface" where
  "field overview r = ptr_RabbitOverview (Overview r)"
| "field connections r = ptr_RabbitConnections (Connections r)"
| "field exchanges r = ptr_RabbitExchanges (Exchanges r)"
| "field queues r = ptr_RabbitQueues (Queues r)"
| "field consumers r = ptr_RabbitConsumers (Consumers r)"
| "field bindings r = ptr_RabbitBindings (Bindings r)"

text \<open>
  A GET on \<open>u\<close> that fails before the body is decoded: the transport fails, or the
  status is not 200.
\<close>

definition failed_before_decoding :: "RabbitHTTPClient \<Rightarrow> string \<Rightarrow> bool" where
  "failed_before_decoding s u =
     (case Get (client s) u of Inl e \<Rightarrow> True | Inr resp \<Rightarrow> StatusCode resp \<noteq> 200)"

subsection \<open>A mocked transport and decoder\<close>

text \<open>
  Concrete inputs for the examples. The payloads are strings. The decoder is a table on
  four bodies, with what \<open>encoding/json\<close> does on bodies of these kinds: \<open>{}\<close> sets no
  field, \<open>[]\<close> is the empty list, \<open>[a,7]\<close> is a list whose second element has the
  wrong JSON type (the decoder keeps what it decoded, leaves the zero value at that
  element, and reports the mismatch), and any other body is not JSON (nothing is
  written). The transport is a table from the URI to the answer; a URI that is not in
  the table refuses the connection.
\<close>

definition mock_Unmarshal_overview :: "string \<Rightarrow> string \<Rightarrow> string \<times> string option" where
  "mock_Unmarshal_overview data v =
     (if data = ''{}'' then (v, None)
      else if data = ''{x}'' then (''x'', None)
      else (v, Some ''invalid character''))"

definition mock_Unmarshal_list :: "string \<Rightarrow> string list \<Rightarrow> string list \<times> string option" where
  "mock_Unmarshal_list data v =
     (if data = ''[]'' then ([], None)
      else if data = ''[a,b]'' then ([''a'', ''b''], None)
      else if data = ''[a,7]'' then ([''a'', []], Some ''cannot unmarshal number'')
      else (v, Some ''invalid character''))"

definition mock_lib :: "(string, string, string, string, string, string) golib" where
  "mock_lib =
     \<lparr>url_Parse = (\<lambda>u. if CHR '' '' \<in> set u then Some ''invalid character in URL'' else None),
      zero_RabbitOverview = [],
      Unmarshal_RabbitOverview = mock_Unmarshal_overview,
      Unmarshal_RabbitConnections = mock_Unmarshal_list,
      Unmarshal_RabbitExchanges = mock_Unmarshal_list,
      Unmarshal_RabbitQueues = mock_Unmarshal_list,
      Unmarshal_RabbitConsumers = mock_Unmarshal_list,
      Unmarshal_RabbitBindings = mock_Unmarshal_list\<rparr>"

definition mock_client :: "(string \<times> (string + Response)) list \<Rightarrow> RabbitHTTPClient" where
  "mock_client table =
     \<lparr>uri = ''mq'',
      client = \<lparr>Get = (\<lambda>u. case map_of table u of
                           Some x \<Rightarrow> x | None \<Rightarrow> Inl ''connection refused''),
                Do = (\<lambda>req. case map_of table (URL req) of
                           Some x \<Rightarrow> x | None \<Rightarrow> Inl ''connection refused'')\<rparr>\<rparr>"

definition reply :: "int \<Rightarrow> string \<Rightarrow> string \<Rightarrow> string + Response" where
  "reply code text body = Inr \<lparr>StatusCode = code, Status = text, Body = body\<rparr>"

text \<open>
  A broker that answers the five list requests (it has no consumers), and one that
  answers \<open>/overview\<close> too. An entry put in front of a table overrides it.
\<close>

definition healthy_lists :: "(string \<times> (string + Response)) list" where
  "healthy_lists =
     [(''mq/connections'', reply 200 ''200 OK'' ''[a,b]''),
      (''mq/exchanges'', reply 200 ''200 OK'' ''[a,b]''),
      (''mq/queues'', reply 200 ''200 OK'' ''[a,b]''),
      (''mq/consumers'', reply 200 ''200 OK'' ''[]''),
      (''mq/bindings'', reply 200 ''200 OK'' ''[a,b]'')]"

definition healthy :: "(string \<times> (string + Response)) list" where
  "healthy = (''mq/overview'', reply 200 ''200 OK'' ''{x}'') # healthy_lists"

text \<open>The schedule that takes the channels in the order of the select's cases.\<close>

definition in_order :: "chan_id list" where
  "in_order = [overview, connections, exchanges, queues, consumers, bindings]"

text \<open>A broker whose \<open>/overview\<close> answers 503 and whose \<open>/queues\<close> resets the connection.\<close>

definition two_down :: "(string \<times> (string + Response)) list" where
  "two_down =
     (''mq/overview'', reply 503 ''503 Service Unavailable'' []) #
     (''mq/queues'', Inl ''connection reset'') # healthy_lists"

section \<open>Auxiliary facts\<close>

subsection \<open>Responses of getResource\<close>

text \<open>
  Every path of the goroutine sends one response, of the type asked for.
\<close>

lemma getResource_single: "\<exists>m. getResource L s request = [m]"
  by (simp add: getResource_def Let_def split: sum.split prod.split option.split)

lemma type_of_reflect_New: "type_of (reflect_New L t) = Some t"
  by (cases t) simp_all

lemma type_of_json_Unmarshal: "type_of (fst (json_Unmarshal L data r)) = type_of r"
  by (cases r) simp_all

lemma getResource_type:
  "m \<in> set (getResource L s request) \<Longrightarrow> type_of (result m) = Some (t_req request)"
proof -
  assume m: "m \<in> set (getResource L s request)"
  have u: "\<And>b r' e. json_Unmarshal L b (reflect_New L (t_req request)) = (r', e)
             \<Longrightarrow> type_of r' = Some (t_req request)"
    using type_of_json_Unmarshal [of L _ "reflect_New L (t_req request)"]
    by (metis fst_conv type_of_reflect_New)
  from m show ?thesis
    by (auto simp: getResource_def Let_def type_of_reflect_New
             split: sum.splits if_splits prod.splits option.splits dest: u [OF sym])
qed

lemma getResource_message:
  "\<exists>m. getResource L s request = [m] \<and> type_of (result m) = Some (t_req request)"
proof -
  obtain m where m: "getResource L s request = [m]"
    using getResource_single by blast
  then have "type_of (result m) = Some (t_req request)"
    using getResource_type [of m L s request] by simp
  with m show ?thesis by blast
qed

lemma getResource_zero:
  "failed_before_decoding s (uri_req request) \<Longrightarrow>
     \<exists>e. getResource L s request = [\<lparr>result = reflect_New L (t_req request), err = Some e\<rparr>]"
  by (auto simp: failed_before_decoding_def getResource_def Let_def split: sum.splits)

lemma getResource_typed_zero:
  "\<exists>m. getResource L s request = [m] \<and> type_of (result m) = Some (t_req request) \<and>
     (failed_before_decoding s (uri_req request) \<longrightarrow>
        result m = reflect_New L (t_req request) \<and> err m \<noteq> None)"
proof (cases "failed_before_decoding s (uri_req request)")
  case True
  from getResource_zero [OF this, of L] show ?thesis
    by (auto simp: type_of_reflect_New)
next
  case False
  with getResource_message [of L s request] show ?thesis by simp
qed

lemma iface_of_type:
  "type_of x = Some type_RabbitOverview \<Longrightarrow> \<exists>v. x = ptr_RabbitOverview v"
  "type_of x = Some type_RabbitConnections \<Longrightarrow> \<exists>v. x = ptr_RabbitConnections v"
  "type_of x = Some type_RabbitExchanges \<Longrightarrow> \<exists>v. x = ptr_RabbitExchanges v"
  "type_of x = Some type_RabbitQueues \<Longrightarrow> \<exists>v. x = ptr_RabbitQueues v"
  "type_of x = Some type_RabbitConsumers \<Longrightarrow> \<exists>v. x = ptr_RabbitConsumers v"
  "type_of x = Some type_RabbitBindings \<Longrightarrow> \<exists>v. x = ptr_RabbitBindings v"
  by (cases x; simp)+

subsection \<open>The channels of BrokerInfo\<close>

lemmas get_call_defs =
  getResource_call_def getOverview_call_def getConnections_call_def getExchanges_call_def
  getQueues_call_def getConsumers_call_def getBindings_call_def

lemma BrokerInfo_run_fetches:
  "BrokerInfo_run L s sched =
     apfst ((@) [Go \<lparr>uri_req = uri s @ ''/overview'', t_req = type_RabbitOverview\<rparr>,
                 Go \<lparr>uri_req = uri s @ ''/connections'', t_req = type_RabbitConnections\<rparr>,
                 Go \<lparr>uri_req = uri s @ ''/exchanges'', t_req = type_RabbitExchanges\<rparr>,
                 Go \<lparr>uri_req = uri s @ ''/queues'', t_req = type_RabbitQueues\<rparr>,
                 Go \<lparr>uri_req = uri s @ ''/consumers'', t_req = type_RabbitConsumers\<rparr>,
                 Go \<lparr>uri_req = uri s @ ''/bindings'', t_req = type_RabbitBindings\<rparr>])
       (BrokerInfo_loop (fetches L s) sched (zero_BrokerInfo L) 0)"
  by (simp add: BrokerInfo_run_def get_call_defs fetches_def getOverview_def
        getConnections_def getExchanges_def getQueues_def getConsumers_def getBindings_def)

lemma BrokerInfo_fetches:
  "BrokerInfo L s sched = snd (BrokerInfo_loop (fetches L s) sched (zero_BrokerInfo L) 0)"
  by (simp add: BrokerInfo_def BrokerInfo_run_fetches)

lemma fetches_single: "\<exists>m. fetches L s c = [m]"
  by (cases c)
     (simp_all add: fetches_def getOverview_def getConnections_def getExchanges_def
        getQueues_def getConsumers_def getBindings_def getResource_single)

lemma fetches_nonempty: "fetches L s c \<noteq> []"
  using fetches_single [of L s c] by auto

lemma fetches_one_shot: "length (fetches L s c) \<le> 1"
  using fetches_single [of L s c] by auto

lemma fetches_type: "m \<in> set (fetches L s c) \<Longrightarrow> type_of (result m) = Some (case_type c)"
  by (cases c)
     (auto simp: fetches_def getOverview_def getConnections_def getExchanges_def
        getQueues_def getConsumers_def getBindings_def dest: getResource_type)

subsection \<open>The cases of the select\<close>

lemma select_case_typed:
  "type_of (result m) = Some (case_type c) \<Longrightarrow> \<exists>r' res. select_case c m r = Some (r', res)"
  by (cases c; cases "result m") simp_all

lemma select_case_field:
  "select_case c m r = Some (r', res) \<Longrightarrow> field c r' = result m"
  by (cases c; cases "result m") auto

lemma select_case_other_field:
  "select_case c m r = Some (r', res) \<Longrightarrow> d \<noteq> c \<Longrightarrow> field d r' = field d r"
  by (cases c; cases "result m"; cases d) auto

lemma select_case_res:
  "select_case c m r = Some (r', res) \<Longrightarrow>
     (c = overview \<longrightarrow> res = zero_httpResponse) \<and> (c \<noteq> overview \<longrightarrow> res = m)"
  by (cases c; cases "result m") auto

subsection \<open>Counting drained channels\<close>

text \<open>
  The loop counts the channels it has drained; there are six.
\<close>

lemma UNIV_chan_id: "UNIV = {overview, connections, exchanges, queues, consumers, bindings}"
  by (auto intro: chan_id.exhaust)

lemma finite_chan_id: "finite (A :: chan_id set)"
proof -
  have "finite (UNIV :: chan_id set)" by (subst UNIV_chan_id) simp
  then show ?thesis using finite_subset [OF subset_UNIV] by blast
qed

lemma card_UNIV_chan_id: "card (UNIV :: chan_id set) = 6"
  by (simp add: UNIV_chan_id)

lemma card_chan_id_le: "card (A :: chan_id set) \<le> 6"
  using card_mono [of UNIV A] by (simp add: finite_chan_id card_UNIV_chan_id)

lemma card_drained_update:
  fixes ch :: "chan_id \<Rightarrow> 'a list"
  assumes "ch c \<noteq> []"
  shows "card {x. (ch(c := [])) x = []} = card {x. ch x = []} + 1"
proof -
  have "{x. (ch(c := [])) x = []} = insert c {x. ch x = []}" by auto
  moreover have "c \<notin> {x. ch x = []}" using assms by simp
  ultimately show ?thesis by (simp add: finite_chan_id)
qed

lemma all_but_one_drained:
  fixes ch :: "chan_id \<Rightarrow> 'a list"
  assumes "card {x. ch x = []} + 1 = 6" and "ch c \<noteq> []" and "d \<noteq> c"
  shows "ch d = []"
proof -
  have sub: "{x. ch x = []} \<subseteq> UNIV - {c}" using assms(2) by auto
  have "card (UNIV - {c}) = 5"
    by (simp add: card_Diff_singleton card_UNIV_chan_id)
  with assms(1) have "card (UNIV - {c}) \<le> card {x. ch x = []}" by simp
  with sub have "{x. ch x = []} = UNIV - {c}"
    by (intro card_seteq) (simp_all add: finite_chan_id)
  with assms(3) show ?thesis by auto
qed

lemma fetches_none_drained: "0 = card {c. fetches L s c = []}"
  by (simp add: fetches_nonempty)

subsection \<open>The loop\<close>

text \<open>
  Invariants of the loop, by induction on the schedule: each channel holds at most one
  message, and \<open>count\<close> is the number of drained channels.
\<close>

lemma BrokerInfo_loop_no_panic:
  "(\<And>c m. m \<in> set (ch c) \<Longrightarrow> type_of (result m) = Some (case_type c)) \<Longrightarrow>
     snd (BrokerInfo_loop ch sched r count) \<noteq> Panic"
proof (induction sched arbitrary: ch r count)
  case Nil
  show ?case by simp
next
  case (Cons c sched)
  show ?case
  proof (cases "ch c")
    case Nil
    with Cons show ?thesis by simp
  next
    case (Cons m ms)
    then have "type_of (result m) = Some (case_type c)"
      using Cons.prems [of m c] by simp
    then obtain r' res where sc: "select_case c m r = Some (r', res)"
      using select_case_typed by blast
    have sub: "\<And>d x. x \<in> set ((ch(c := ms)) d) \<Longrightarrow> type_of (result x) = Some (case_type d)"
      using Cons.prems \<open>ch c = m # ms\<close> by (auto split: if_splits)
    have "snd (BrokerInfo_loop (ch(c := ms)) sched r' (count + 1)) \<noteq> Panic"
      by (rule Cons.IH) (rule sub)
    with sc \<open>ch c = m # ms\<close> show ?thesis by simp
  qed
qed

lemma BrokerInfo_loop_error_origin:
  "snd (BrokerInfo_loop ch sched r count) = Return (r1, Some e) \<Longrightarrow>
     \<exists>c m. c \<noteq> overview \<and> m \<in> set (ch c) \<and> err m = Some e"
proof (induction sched arbitrary: ch r count)
  case Nil
  then show ?case by simp
next
  case (Cons c sched)
  show ?case
  proof (cases "ch c")
    case Nil
    with Cons show ?thesis by simp
  next
    case chc: (Cons m ms)
    show ?thesis
    proof (cases "select_case c m r")
      case None
      with chc Cons.prems show ?thesis by simp
    next
      case (Some p)
      obtain r' res where p: "p = (r', res)" by (cases p)
      note sc = Some [unfolded p]
      show ?thesis
      proof (cases "err res")
        case (Some e')
        with sc chc Cons.prems have "e' = e" by simp
        moreover have "c \<noteq> overview"
          using select_case_res [OF sc] Some by (auto simp: zero_httpResponse_def)
        moreover then have "res = m" using select_case_res [OF sc] by simp
        ultimately show ?thesis using Some chc by force
      next
        case None
        show ?thesis
        proof (cases "count + 1 = numExpectedResources")
          case True
          with None sc chc Cons.prems show ?thesis by simp
        next
          case False
          with None sc chc Cons.prems
          have "snd (BrokerInfo_loop (ch(c := ms)) sched r' (count + 1)) = Return (r1, Some e)"
            by simp
          from Cons.IH [OF this] obtain d x where
            dx: "d \<noteq> overview" "x \<in> set ((ch(c := ms)) d)" "err x = Some e" by blast
          from dx(2) chc have "x \<in> set (ch d)" by (cases "d = c") auto
          with dx(1,3) show ?thesis by blast
        qed
      qed
    qed
  qed
qed

lemma BrokerInfo_loop_returns:
  assumes "\<And>c. length (ch c) \<le> 1"
    and "count = card {c. ch c = []}"
    and "count < numExpectedResources"
    and "\<And>c. ch c \<noteq> [] \<Longrightarrow> c \<in> set sched"
  shows "snd (BrokerInfo_loop ch sched r count) \<noteq> Blocked"
  using assms
proof (induction sched arbitrary: ch r count)
  case Nil
  then have "{c. ch c = []} = UNIV" by auto
  with Nil show ?case by (simp add: card_UNIV_chan_id numExpectedResources_def)
next
  case (Cons c sched)
  show ?case
  proof (cases "ch c")
    case Nil
    have "snd (BrokerInfo_loop ch sched r count) \<noteq> Blocked"
    proof (rule Cons.IH)
      fix d assume "ch d \<noteq> []"
      with Cons.prems(4) [of d] Nil show "d \<in> set sched" by auto
    qed (use Cons.prems in auto)
    with Nil show ?thesis by simp
  next
    case chc: (Cons m ms)
    with Cons.prems(1) [of c] have ms: "ms = []" by simp
    show ?thesis
    proof (cases "select_case c m r")
      case None
      with chc show ?thesis by simp
    next
      case (Some p)
      obtain r' res where p: "p = (r', res)" by (cases p)
      note sc = Some [unfolded p]
      show ?thesis
      proof (cases "err res \<noteq> None \<or> count + 1 = numExpectedResources")
        case True
        with sc chc show ?thesis by auto
      next
        case False
        have cnt: "count + 1 = card {x. (ch(c := ms)) x = []}"
          using card_drained_update [of ch c] chc ms Cons.prems(2) by simp
        have lt: "count + 1 < numExpectedResources"
          using False cnt card_chan_id_le [of "{x. (ch(c := ms)) x = []}"]
          by (simp add: numExpectedResources_def)
        have "snd (BrokerInfo_loop (ch(c := ms)) sched r' (count + 1)) \<noteq> Blocked"
        proof (rule Cons.IH [OF _ cnt lt])
          fix d show "length ((ch(c := ms)) d) \<le> 1"
            using Cons.prems(1) [of d] ms by simp
        next
          fix d assume "(ch(c := ms)) d \<noteq> []"
          with ms have "d \<noteq> c" "ch d \<noteq> []" by (auto split: if_splits)
          with Cons.prems(4) [of d] show "d \<in> set sched" by auto
        qed
        with False sc chc show ?thesis by simp
      qed
    qed
  qed
qed

lemma BrokerInfo_loop_pending_error:
  assumes "\<And>c. length (ch c) \<le> 1"
    and "count = card {c. ch c = []}"
    and "d \<noteq> overview" and "ch d = [md]" and "err md \<noteq> None"
  shows "snd (BrokerInfo_loop ch sched r count) \<noteq> Return (r1, None)"
  using assms
proof (induction sched arbitrary: ch r count)
  case Nil
  show ?case by simp
next
  case (Cons c sched)
  show ?case
  proof (cases "ch c")
    case Nil
    with Cons.IH [of ch count r] Cons.prems show ?thesis by simp
  next
    case chc: (Cons m ms)
    with Cons.prems(1) [of c] have ms: "ms = []" by simp
    show ?thesis
    proof (cases "select_case c m r")
      case None
      with chc show ?thesis by simp
    next
      case (Some p)
      obtain r' res where p: "p = (r', res)" by (cases p)
      note sc = Some [unfolded p]
      show ?thesis
      proof (cases "err res \<noteq> None")
        case True
        with sc chc show ?thesis by auto
      next
        case ok: False
        have cd: "c \<noteq> d"
        proof
          assume "c = d"
          with chc Cons.prems(4) have "m = md" by simp
          moreover from \<open>c = d\<close> Cons.prems(3) select_case_res [OF sc] have "res = m" by simp
          ultimately show False using ok Cons.prems(5) by simp
        qed
        show ?thesis
        proof (cases "count + 1 = numExpectedResources")
          case True
          then have "card {x. ch x = []} + 1 = 6"
            using Cons.prems(2) by (simp add: numExpectedResources_def)
          from all_but_one_drained [OF this, of c d] chc cd have "ch d = []" by auto
          with Cons.prems(4) show ?thesis by simp
        next
          case False
          have cnt: "count + 1 = card {x. (ch(c := ms)) x = []}"
            using card_drained_update [of ch c] chc ms Cons.prems(2) by simp
          have "snd (BrokerInfo_loop (ch(c := ms)) sched r' (count + 1)) \<noteq> Return (r1, None)"
          proof (rule Cons.IH [OF _ cnt Cons.prems(3) _ Cons.prems(5)])
            fix x show "length ((ch(c := ms)) x) \<le> 1"
              using Cons.prems(1) [of x] ms by simp
          next
            show "(ch(c := ms)) d = [md]" using cd Cons.prems(4) by simp
          qed
          with False ok sc chc show ?thesis by simp
        qed
      qed
    qed
  qed
qed

lemma BrokerInfo_loop_fields:
  assumes "\<And>c. length (ch c) \<le> 1"
    and "count = card {c. ch c = []}"
    and "\<And>c m. m \<in> set (ch c) \<Longrightarrow> result m = v c"
    and "\<And>c. ch c = [] \<Longrightarrow> field c r = v c"
    and "snd (BrokerInfo_loop ch sched r count) = Return (r1, None)"
  shows "field d r1 = v d"
  using assms
proof (induction sched arbitrary: ch r count)
  case Nil
  then show ?case by simp
next
  case (Cons c sched)
  show ?case
  proof (cases "ch c")
    case Nil
    with Cons.IH [of ch count r] Cons.prems show ?thesis by simp
  next
    case chc: (Cons m ms)
    with Cons.prems(1) [of c] have ms: "ms = []" by simp
    show ?thesis
    proof (cases "select_case c m r")
      case None
      with chc Cons.prems(5) show ?thesis by simp
    next
      case (Some p)
      obtain r' res where p: "p = (r', res)" by (cases p)
      note sc = Some [unfolded p]
      have fc: "field c r' = v c"
        using select_case_field [OF sc] Cons.prems(3) [of m c] chc by simp
      have fo: "\<And>x. x \<noteq> c \<Longrightarrow> ch x = [] \<Longrightarrow> field x r' = v x"
        using select_case_other_field [OF sc] Cons.prems(4) by simp
      show ?thesis
      proof (cases "err res \<noteq> None")
        case True
        with sc chc Cons.prems(5) show ?thesis by auto
      next
        case ok: False
        show ?thesis
        proof (cases "count + 1 = numExpectedResources")
          case True
          with ok sc chc Cons.prems(5) have r1: "r1 = r'" by simp
          from True have full: "card {x. ch x = []} + 1 = 6"
            using Cons.prems(2) by (simp add: numExpectedResources_def)
          show ?thesis
          proof (cases "d = c")
            case True
            with fc r1 show ?thesis by simp
          next
            case False
            from all_but_one_drained [OF full, of c d] chc False have "ch d = []" by auto
            with fo [of d] False r1 show ?thesis by simp
          qed
        next
          case False
          have cnt: "count + 1 = card {x. (ch(c := ms)) x = []}"
            using card_drained_update [of ch c] chc ms Cons.prems(2) by simp
          from False ok sc chc Cons.prems(5)
          have ret: "snd (BrokerInfo_loop (ch(c := ms)) sched r' (count + 1)) = Return (r1, None)"
            by simp
          show ?thesis
          proof (rule Cons.IH [OF _ cnt _ _ ret])
            fix x show "length ((ch(c := ms)) x) \<le> 1"
              using Cons.prems(1) [of x] ms by simp
          next
            fix x y assume "y \<in> set ((ch(c := ms)) x)"
            with ms have "y \<in> set (ch x)" by (auto split: if_splits)
            then show "result y = v x" by (rule Cons.prems(3))
          next
            fix x assume "(ch(c := ms)) x = []"
            then show "field x r' = v x" using fc fo [of x] by (cases "x = c") auto
          qed
        qed
      qed
    qed
  qed
qed

lemma BrokerInfo_loop_receives:
  "c \<in> set sched \<Longrightarrow> ch c \<noteq> [] \<Longrightarrow> fst (BrokerInfo_loop ch sched r count) \<noteq> []"
proof (induction sched arbitrary: ch r count)
  case Nil
  then show ?case by simp
next
  case (Cons d sched)
  show ?case
  proof (cases "ch d")
    case Nil
    with Cons.prems have "c \<in> set sched" by auto
    from Cons.IH [of ch r count, OF this Cons.prems(2)] Nil show ?thesis by simp
  next
    case (Cons m ms)
    then show ?thesis
      by (simp split: option.split prod.split)
  qed
qed

lemma BrokerInfo_loop_events: "\<exists>cs. fst (BrokerInfo_loop ch sched r count) = map Recv cs"
proof (induction sched arbitrary: ch r count)
  case Nil
  show ?case by simp
next
  case (Cons c sched)
  show ?case
  proof (cases "ch c")
    case Nil
    with Cons.IH [of ch r count] show ?thesis by simp
  next
    case chc: (Cons m ms)
    show ?thesis
    proof (cases "select_case c m r")
      case None
      have "[Recv c] = map Recv [c]" by simp
      with None chc show ?thesis by (simp del: list.map) blast
    next
      case (Some p)
      obtain r' res where p: "p = (r', res)" by (cases p)
      obtain cs where cs: "fst (BrokerInfo_loop (ch(c := ms)) sched r' (count + 1)) = map Recv cs"
        using Cons.IH by blast
      have one: "[Recv c] = map Recv [c]" by simp
      have more: "Recv c # map Recv cs = map Recv (c # cs)" by simp
      show ?thesis
      proof (cases "err res \<noteq> None \<or> count + 1 = numExpectedResources")
        case True
        with Some p chc one show ?thesis by (auto simp del: list.map)
      next
        case False
        with Some p chc cs more show ?thesis by (auto simp del: list.map)
      qed
    qed
  qed
qed

subsection \<open>BrokerInfo as a whole\<close>

lemma BrokerInfo_no_panic: "BrokerInfo L s sched \<noteq> Panic"
  unfolding BrokerInfo_fetches
  by (rule BrokerInfo_loop_no_panic) (rule fetches_type)

lemma BrokerInfo_returns:
  assumes "set sched = UNIV"
  shows "\<exists>r e. BrokerInfo L s sched = Return (r, e)"
proof -
  have "snd (BrokerInfo_loop (fetches L s) sched (zero_BrokerInfo L) 0) \<noteq> Blocked"
  proof (rule BrokerInfo_loop_returns [where ch = "fetches L s" and count = 0])
    show "length (fetches L s c) \<le> 1" for c by (rule fetches_one_shot)
    show "0 = card {c. fetches L s c = []}" by (rule fetches_none_drained)
    show "0 < numExpectedResources" by (simp add: numExpectedResources_def)
    show "c \<in> set sched" for c using assms by simp
  qed
  then have "BrokerInfo L s sched \<noteq> Blocked" by (simp add: BrokerInfo_fetches)
  with BrokerInfo_no_panic [of L s sched] show ?thesis
    by (cases "BrokerInfo L s sched") auto
qed

lemma BrokerInfo_error_origin:
  assumes "BrokerInfo L s sched = Return (r, Some e)"
  shows "\<exists>c. c \<noteq> overview \<and> map err (fetches L s c) = [Some e]"
proof -
  have "snd (BrokerInfo_loop (fetches L s) sched (zero_BrokerInfo L) 0) = Return (r, Some e)"
    using assms unfolding BrokerInfo_fetches .
  then have "\<exists>c m. c \<noteq> overview \<and> m \<in> set (fetches L s c) \<and> err m = Some e"
    by (rule BrokerInfo_loop_error_origin)
  then obtain c m where c: "c \<noteq> overview" "m \<in> set (fetches L s c)" "err m = Some e"
    by (elim exE conjE)
  obtain m' where m': "fetches L s c = [m']" using fetches_single by blast
  have mm: "m' = m" using c(2) unfolding m' by simp
  have "err m' = Some e" unfolding mm by (rule c(3))
  then have "map err (fetches L s c) = [Some e]" unfolding m' by simp
  with c(1) show ?thesis by (intro exI [of _ c] conjI)
qed

lemma BrokerInfo_pending_error:
  assumes "d \<noteq> overview" and "map err (fetches L s d) = [Some e]"
  shows "BrokerInfo L s sched \<noteq> Return (r, None)"
proof -
  from assms(2) obtain md where md: "fetches L s d = [md]" "err md \<noteq> None" by auto
  have "snd (BrokerInfo_loop (fetches L s) sched (zero_BrokerInfo L) 0) \<noteq> Return (r, None)"
  proof (rule BrokerInfo_loop_pending_error
            [where ch = "fetches L s" and count = 0 and d = d and md = md])
    show "length (fetches L s c) \<le> 1" for c by (rule fetches_one_shot)
    show "0 = card {c. fetches L s c = []}" by (rule fetches_none_drained)
  qed (use assms(1) md in simp_all)
  then show ?thesis unfolding BrokerInfo_fetches .
qed

lemma BrokerInfo_fields:
  assumes "BrokerInfo L s sched = Return (r, None)"
  shows "map result (fetches L s c) = [field c r]"
proof -
  let ?v = "\<lambda>c. result (hd (fetches L s c))"
  have "field c r = ?v c"
  proof (rule BrokerInfo_loop_fields
            [where ch = "fetches L s" and count = 0 and v = ?v and r = "zero_BrokerInfo L"
               and sched = sched])
    show "length (fetches L s c) \<le> 1" for c by (rule fetches_one_shot)
    show "0 = card {c. fetches L s c = []}" by (rule fetches_none_drained)
  next
    fix d m assume m: "m \<in> set (fetches L s d)"
    obtain m' where m': "fetches L s d = [m']" using fetches_single by blast
    with m have "m = m'" by simp
    with m' show "result m = ?v d" by simp
  next
    fix d assume "fetches L s d = []"
    with fetches_nonempty [of L s d] show "field d (zero_BrokerInfo L) = ?v d" by simp
  next
    show "snd (BrokerInfo_loop (fetches L s) sched (zero_BrokerInfo L) 0) = Return (r, None)"
      using assms unfolding BrokerInfo_fetches .
  qed
  moreover obtain m' where "fetches L s c = [m']" using fetches_single by blast
  ultimately show ?thesis by simp
qed

subsection \<open>The accessors, one by one\<close>

lemma Overview_accessor_fetch:
  "\<exists>m v. getOverview L s = [m] \<and> result m = ptr_RabbitOverview v \<and>
     Overview_accessor L s = Return (v, err m)"
  using getResource_message
          [of L s "\<lparr>uri_req = uri s @ ''/overview'', t_req = type_RabbitOverview\<rparr>"]
  by (auto simp: Overview_accessor_def getOverview_def dest!: iface_of_type)

lemma Connections_accessor_fetch:
  "\<exists>m v. getConnections L s = [m] \<and> result m = ptr_RabbitConnections v \<and>
     Connections_accessor L s = Return (v, err m)"
  using getResource_message
          [of L s "\<lparr>uri_req = uri s @ ''/connections'', t_req = type_RabbitConnections\<rparr>"]
  by (auto simp: Connections_accessor_def getConnections_def dest!: iface_of_type)

lemma Exchanges_accessor_fetch:
  "\<exists>m v. getExchanges L s = [m] \<and> result m = ptr_RabbitExchanges v \<and>
     Exchanges_accessor L s = Return (v, err m)"
  using getResource_message
          [of L s "\<lparr>uri_req = uri s @ ''/exchanges'', t_req = type_RabbitExchanges\<rparr>"]
  by (auto simp: Exchanges_accessor_def getExchanges_def dest!: iface_of_type)

lemma Queues_accessor_fetch:
  "\<exists>m v. getQueues L s = [m] \<and> result m = ptr_RabbitQueues v \<and>
     Queues_accessor L s = Return (v, err m)"
  using getResource_message
          [of L s "\<lparr>uri_req = uri s @ ''/queues'', t_req = type_RabbitQueues\<rparr>"]
  by (auto simp: Queues_accessor_def getQueues_def dest!: iface_of_type)

lemma Consumers_accessor_fetch:
  "\<exists>m v. getConsumers L s = [m] \<and> result m = ptr_RabbitConsumers v \<and>
     Consumers_accessor L s = Return (v, err m)"
  using getResource_message
          [of L s "\<lparr>uri_req = uri s @ ''/consumers'', t_req = type_RabbitConsumers\<rparr>"]
  by (auto simp: Consumers_accessor_def getConsumers_def dest!: iface_of_type)

lemma Bindings_accessor_fetch:
  "\<exists>m v. getBindings L s = [m] \<and> result m = ptr_RabbitBindings v \<and>
     Bindings_accessor L s = Return (v, err m)"
  using getResource_message
          [of L s "\<lparr>uri_req = uri s @ ''/bindings'', t_req = type_RabbitBindings\<rparr>"]
  by (auto simp: Bindings_accessor_def getBindings_def dest!: iface_of_type)

lemma Connections_accessor_decoded:
  assumes "Get (client s) (uri s @ ''/connections'') = Inr resp"
    and "StatusCode resp = 200"
    and "Unmarshal_RabbitConnections L (Body resp) [] = (cs, None)"
  shows "Connections_accessor L s = Return (cs, None)"
  using assms by (simp add: Connections_accessor_def getConnections_def getResource_def)

lemma accessors_return:
  "\<exists>v e. Overview_accessor L s = Return (v, e)"
  "\<exists>v e. Connections_accessor L s = Return (v, e)"
  "\<exists>v e. Exchanges_accessor L s = Return (v, e)"
  "\<exists>v e. Queues_accessor L s = Return (v, e)"
  "\<exists>v e. Consumers_accessor L s = Return (v, e)"
  "\<exists>v e. Bindings_accessor L s = Return (v, e)"
  using Overview_accessor_fetch [of L s] Connections_accessor_fetch [of L s]
    Exchanges_accessor_fetch [of L s] Queues_accessor_fetch [of L s]
    Consumers_accessor_fetch [of L s] Bindings_accessor_fetch [of L s]
  by blast+

lemma accessors_zero:
  "failed_before_decoding s (uri s @ ''/overview'') \<Longrightarrow>
     \<exists>e. Overview_accessor L s = Return (zero_RabbitOverview L, Some e)"
  "failed_before_decoding s (uri s @ ''/connections'') \<Longrightarrow>
     \<exists>e. Connections_accessor L s = Return ([], Some e)"
  "failed_before_decoding s (uri s @ ''/exchanges'') \<Longrightarrow>
     \<exists>e. Exchanges_accessor L s = Return ([], Some e)"
  "failed_before_decoding s (uri s @ ''/queues'') \<Longrightarrow>
     \<exists>e. Queues_accessor L s = Return ([], Some e)"
  "failed_before_decoding s (uri s @ ''/consumers'') \<Longrightarrow>
     \<exists>e. Consumers_accessor L s = Return ([], Some e)"
  "failed_before_decoding s (uri s @ ''/bindings'') \<Longrightarrow>
     \<exists>e. Bindings_accessor L s = Return ([], Some e)"
  using getResource_zero [of s "\<lparr>uri_req = uri s @ ''/overview'', t_req = type_RabbitOverview\<rparr>" L]
    getResource_zero [of s "\<lparr>uri_req = uri s @ ''/connections'', t_req = type_RabbitConnections\<rparr>" L]
    getResource_zero [of s "\<lparr>uri_req = uri s @ ''/exchanges'', t_req = type_RabbitExchanges\<rparr>" L]
    getResource_zero [of s "\<lparr>uri_req = uri s @ ''/queues'', t_req = type_RabbitQueues\<rparr>" L]
    getResource_zero [of s "\<lparr>uri_req = uri s @ ''/consumers'', t_req = type_RabbitConsumers\<rparr>" L]
    getResource_zero [of s "\<lparr>uri_req = uri s @ ''/bindings'', t_req = type_RabbitBindings\<rparr>" L]
  by (auto simp: Overview_accessor_def Connections_accessor_def Exchanges_accessor_def
        Queues_accessor_def Consumers_accessor_def Bindings_accessor_def
        getOverview_def getConnections_def getExchanges_def getQueues_def getConsumers_def
        getBindings_def)

lemma getResource_decode_failure:
  assumes "Get (client s) (uri_req request) = Inr resp" and "StatusCode resp = 200"
    and "snd (json_Unmarshal L (Body resp) (reflect_New L (t_req request))) = Some e"
  shows "getResource L s request =
           [\<lparr>result = fst (json_Unmarshal L (Body resp) (reflect_New L (t_req request))),
             err = Some (UnmarshalError e)\<rparr>]"
proof -
  obtain r' x where u: "json_Unmarshal L (Body resp) (reflect_New L (t_req request)) = (r', x)"
    by (cases "json_Unmarshal L (Body resp) (reflect_New L (t_req request))")
  with assms(3) have "x = Some e" by simp
  with assms(1,2) u show ?thesis by (simp add: getResource_def)
qed

lemma Overview_accessor_decode_failure:
  assumes "Get (client s) (uri s @ ''/overview'') = Inr resp" and "StatusCode resp = 200"
    and "snd (Unmarshal_RabbitOverview L (Body resp) (zero_RabbitOverview L)) = Some e"
  shows "Overview_accessor L s =
           Return (fst (Unmarshal_RabbitOverview L (Body resp) (zero_RabbitOverview L)), Some (UnmarshalError e))"
  using assms
    getResource_decode_failure
      [of s "\<lparr>uri_req = uri s @ ''/overview'', t_req = type_RabbitOverview\<rparr>" resp L e]
  by (simp add: Overview_accessor_def getOverview_def)

lemma Connections_accessor_decode_failure:
  assumes "Get (client s) (uri s @ ''/connections'') = Inr resp" and "StatusCode resp = 200"
    and "snd (Unmarshal_RabbitConnections L (Body resp) []) = Some e"
  shows "Connections_accessor L s =
           Return (fst (Unmarshal_RabbitConnections L (Body resp) []), Some (UnmarshalError e))"
  using assms
    getResource_decode_failure
      [of s "\<lparr>uri_req = uri s @ ''/connections'', t_req = type_RabbitConnections\<rparr>" resp L e]
  by (simp add: Connections_accessor_def getConnections_def)

lemma Exchanges_accessor_decode_failure:
  assumes "Get (client s) (uri s @ ''/exchanges'') = Inr resp" and "StatusCode resp = 200"
    and "snd (Unmarshal_RabbitExchanges L (Body resp) []) = Some e"
  shows "Exchanges_accessor L s =
           Return (fst (Unmarshal_RabbitExchanges L (Body resp) []), Some (UnmarshalError e))"
  using assms
    getResource_decode_failure
      [of s "\<lparr>uri_req = uri s @ ''/exchanges'', t_req = type_RabbitExchanges\<rparr>" resp L e]
  by (simp add: Exchanges_accessor_def getExchanges_def)

lemma Queues_accessor_decode_failure:
  assumes "Get (client s) (uri s @ ''/queues'') = Inr resp" and "StatusCode resp = 200"
    and "snd (Unmarshal_RabbitQueues L (Body resp) []) = Some e"
  shows "Queues_accessor L s =
           Return (fst (Unmarshal_RabbitQueues L (Body resp) []), Some (UnmarshalError e))"
  using assms
    getResource_decode_failure
      [of s "\<lparr>uri_req = uri s @ ''/queues'', t_req = type_RabbitQueues\<rparr>" resp L e]
  by (simp add: Queues_accessor_def getQueues_def)

lemma Consumers_accessor_decode_failure:
  assumes "Get (client s) (uri s @ ''/consumers'') = Inr resp" and "StatusCode resp = 200"
    and "snd (Unmarshal_RabbitConsumers L (Body resp) []) = Some e"
  shows "Consumers_accessor L s =
           Return (fst (Unmarshal_RabbitConsumers L (Body resp) []), Some (UnmarshalError e))"
  using assms
    getResource_decode_failure
      [of s "\<lparr>uri_req = uri s @ ''/consumers'', t_req = type_RabbitConsumers\<rparr>" resp L e]
  by (simp add: Consumers_accessor_def getConsumers_def)

lemma Bindings_accessor_decode_failure:
  assumes "Get (client s) (uri s @ ''/bindings'') = Inr resp" and "StatusCode resp = 200"
    and "snd (Unmarshal_RabbitBindings L (Body resp) []) = Some e"
  shows "Bindings_accessor L s =
           Return (fst (Unmarshal_RabbitBindings L (Body resp) []), Some (UnmarshalError e))"
  using assms
    getResource_decode_failure
      [of s "\<lparr>uri_req = uri s @ ''/bindings'', t_req = type_RabbitBindings\<rparr>" resp L e]
  by (simp add: Bindings_accessor_def getBindings_def)

lemmas accessors_decode_failure =
  Overview_accessor_decode_failure
  Connections_accessor_decode_failure
  Exchanges_accessor_decode_failure
  Queues_accessor_decode_failure
  Consumers_accessor_decode_failure
  Bindings_accessor_decode_failure

lemma getResource_typed_values:
  "\<exists>m. getResource L s request = [m] \<and> type_of (result m) = Some (t_req request) \<and>
     (failed_before_decoding s (uri_req request) \<longrightarrow>
        result m = reflect_New L (t_req request) \<and> err m \<noteq> None) \<and>
     (\<forall>resp e. Get (client s) (uri_req request) = Inr resp \<longrightarrow> StatusCode resp = 200 \<longrightarrow>
        snd (json_Unmarshal L (Body resp) (reflect_New L (t_req request))) = Some e \<longrightarrow>
        result m = fst (json_Unmarshal L (Body resp) (reflect_New L (t_req request))) \<and>
        err m = Some (UnmarshalError e))"
proof -
  obtain m where m: "getResource L s request = [m]"
      "type_of (result m) = Some (t_req request)"
      "failed_before_decoding s (uri_req request) \<longrightarrow>
         result m = reflect_New L (t_req request) \<and> err m \<noteq> None"
    using getResource_typed_zero [of L s request] by (elim exE conjE)
  have "result m = fst (json_Unmarshal L (Body resp) (reflect_New L (t_req request))) \<and>
        err m = Some (UnmarshalError e)"
    if "Get (client s) (uri_req request) = Inr resp" "StatusCode resp = 200"
       "snd (json_Unmarshal L (Body resp) (reflect_New L (t_req request))) = Some e"
    for resp e
    using getResource_decode_failure [OF that] m(1) by simp
  with m show ?thesis by (intro exI [where x = m] conjI allI impI) simp_all
qed

subsection \<open>Evaluation on the mocked transport\<close>

lemmas mock_eval =
  mock_Unmarshal_overview_def mock_Unmarshal_list_def mock_lib_def mock_client_def reply_def
  healthy_def healthy_lists_def in_order_def fetches_def
  getOverview_def getConnections_def getExchanges_def getQueues_def getConsumers_def
  getBindings_def getResource_def get_call_defs BrokerInfo_def BrokerInfo_run_def
  zero_BrokerInfo_def zero_httpResponse_def numExpectedResources_def

section \<open>Properties of the client\<close>

subsection \<open>getResource\<close>

text \<open>
  Claim C4. Every call of \<open>getResource\<close> sends one response. Its error is nil if and
  only if the GET succeeded at the transport level, the status is exactly 200 and the
  body decodes at the requested type, and then the result is the decoded value.
  Otherwise the error is of the kind of the failure: the transport's error, the decoder's
  error, or, for any status other than 200, an error whose text is the status text.
\<close>

theorem getResource_result:
  fixes L :: "('ov, 'cn, 'ex, 'qu, 'cs, 'bi) golib"
  shows "\<exists>m. getResource L s request = [m] \<and>
     (err m = None \<longleftrightarrow>
        (\<exists>resp. Get (client s) (uri_req request) = Inr resp \<and> StatusCode resp = 200 \<and>
           snd (json_Unmarshal L (Body resp) (reflect_New L (t_req request))) = None)) \<and>
     (\<forall>resp. Get (client s) (uri_req request) = Inr resp \<longrightarrow> StatusCode resp = 200 \<longrightarrow>
        snd (json_Unmarshal L (Body resp) (reflect_New L (t_req request))) = None \<longrightarrow>
        result m = fst (json_Unmarshal L (Body resp) (reflect_New L (t_req request)))) \<and>
     (\<forall>e. Get (client s) (uri_req request) = Inl e \<longrightarrow> err m = Some (TransportError e)) \<and>
     (\<forall>resp. Get (client s) (uri_req request) = Inr resp \<longrightarrow> StatusCode resp \<noteq> 200 \<longrightarrow>
        err m = Some (errorString (Status resp)) \<and>
        Error (errorString (Status resp)) = Status resp) \<and>
     (\<forall>resp e. Get (client s) (uri_req request) = Inr resp \<longrightarrow> StatusCode resp = 200 \<longrightarrow>
        snd (json_Unmarshal L (Body resp) (reflect_New L (t_req request))) = Some e \<longrightarrow>
        err m = Some (UnmarshalError e))"
proof (cases "Get (client s) (uri_req request)")
  case (Inl e)
  then show ?thesis by (simp add: getResource_def)
next
  case (Inr resp)
  show ?thesis
  proof (cases "StatusCode resp = 200")
    case False
    with Inr show ?thesis by (simp add: getResource_def)
  next
    case True
    obtain r' e where u: "json_Unmarshal L (Body resp) (reflect_New L (t_req request)) = (r', e)"
      by (cases "json_Unmarshal L (Body resp) (reflect_New L (t_req request))")
    show ?thesis
    proof (cases e)
      case None
      with Inr True u show ?thesis by (simp add: getResource_def)
    next
      case (Some x)
      with Inr True u show ?thesis by (simp add: getResource_def)
    qed
  qed
qed

text \<open>
  The four paths on the mocked transport: a good answer, a refused connection, a 503,
  and a 200 whose body is not JSON.
\<close>

theorem getResource_result_witness:
  "map err (getResource mock_lib (mock_client healthy)
       \<lparr>uri_req = ''mq/connections'', t_req = type_RabbitConnections\<rparr>) = [None] \<and>
   map result (getResource mock_lib (mock_client healthy)
       \<lparr>uri_req = ''mq/connections'', t_req = type_RabbitConnections\<rparr>)
     = [ptr_RabbitConnections [''a'', ''b'']] \<and>
   map err (getResource mock_lib (mock_client [])
       \<lparr>uri_req = ''mq/connections'', t_req = type_RabbitConnections\<rparr>)
     = [Some (TransportError ''connection refused'')] \<and>
   map err (getResource mock_lib
       (mock_client [(''mq/queues'', reply 503 ''503 Service Unavailable'' [])])
       \<lparr>uri_req = ''mq/queues'', t_req = type_RabbitQueues\<rparr>)
     = [Some (errorString ''503 Service Unavailable'')] \<and>
   map err (getResource mock_lib
       (mock_client [(''mq/overview'', reply 200 ''200 OK'' ''<html>'')])
       \<lparr>uri_req = ''mq/overview'', t_req = type_RabbitOverview\<rparr>)
     = [Some (UnmarshalError ''invalid character'')]"
proof -
  let ?cn = "\<lparr>uri_req = ''mq/connections'', t_req = type_RabbitConnections\<rparr>"
  let ?qu = "\<lparr>uri_req = ''mq/queues'', t_req = type_RabbitQueues\<rparr>"
  let ?ov = "\<lparr>uri_req = ''mq/overview'', t_req = type_RabbitOverview\<rparr>"
  let ?down = "mock_client [(''mq/queues'', reply 503 ''503 Service Unavailable'' [])]"
  let ?html = "mock_client [(''mq/overview'', reply 200 ''200 OK'' ''<html>'')]"
  let ?r1 = "\<lparr>StatusCode = 200, Status = ''200 OK'', Body = ''[a,b]''\<rparr>"
  let ?r3 = "\<lparr>StatusCode = 503, Status = ''503 Service Unavailable'', Body = []\<rparr>"
  let ?r4 = "\<lparr>StatusCode = 200, Status = ''200 OK'', Body = ''<html>''\<rparr>"
  have g1: "Get (client (mock_client healthy)) (uri_req ?cn) = Inr ?r1"
    by (simp add: mock_client_def healthy_def healthy_lists_def reply_def)
  have g2: "Get (client (mock_client [])) (uri_req ?cn) = Inl ''connection refused''"
    by (simp add: mock_client_def)
  have g3: "Get (client ?down) (uri_req ?qu) = Inr ?r3"
    by (simp add: mock_client_def reply_def)
  have g4: "Get (client ?html) (uri_req ?ov) = Inr ?r4"
    by (simp add: mock_client_def reply_def)
  have s1: "StatusCode ?r1 = 200" and s3: "StatusCode ?r3 \<noteq> 200" and s4: "StatusCode ?r4 = 200"
    by simp_all
  have u1: "snd (json_Unmarshal mock_lib (Body ?r1) (reflect_New mock_lib (t_req ?cn))) = None"
    and v1: "fst (json_Unmarshal mock_lib (Body ?r1) (reflect_New mock_lib (t_req ?cn)))
               = ptr_RabbitConnections [''a'', ''b'']"
    by (simp_all add: mock_lib_def mock_Unmarshal_list_def)
  have u4: "snd (json_Unmarshal mock_lib (Body ?r4) (reflect_New mock_lib (t_req ?ov)))
              = Some ''invalid character''"
    by (simp add: mock_lib_def mock_Unmarshal_overview_def)
  obtain m1 where m1: "getResource mock_lib (mock_client healthy) ?cn = [m1]"
    "err m1 = None"
    "result m1 = fst (json_Unmarshal mock_lib (Body ?r1) (reflect_New mock_lib (t_req ?cn)))"
    using getResource_result [of mock_lib "mock_client healthy" ?cn] g1 s1 u1 by blast
  obtain m2 where m2: "getResource mock_lib (mock_client []) ?cn = [m2]"
    "err m2 = Some (TransportError ''connection refused'')"
    using getResource_result [of mock_lib "mock_client []" ?cn] g2 by blast
  obtain m3 where m3: "getResource mock_lib ?down ?qu = [m3]"
    "err m3 = Some (errorString (Status ?r3))"
    using getResource_result [of mock_lib ?down ?qu] g3 s3 by blast
  obtain m4 where m4: "getResource mock_lib ?html ?ov = [m4]"
    "err m4 = Some (UnmarshalError ''invalid character'')"
    using getResource_result [of mock_lib ?html ?ov] g4 s4 u4 by blast
  have c1: "map err (getResource mock_lib (mock_client healthy) ?cn) = [None]"
    using m1 by simp
  have c1': "map result (getResource mock_lib (mock_client healthy) ?cn)
               = [ptr_RabbitConnections [''a'', ''b'']]"
    using m1 v1 by simp
  have c2: "map err (getResource mock_lib (mock_client []) ?cn)
              = [Some (TransportError ''connection refused'')]"
    using m2 by simp
  have c3: "map err (getResource mock_lib ?down ?qu)
              = [Some (errorString ''503 Service Unavailable'')]"
    using m3 by simp
  have c4: "map err (getResource mock_lib ?html ?ov)
              = [Some (UnmarshalError ''invalid character'')]"
    using m4 by simp
  from c1 c1' c2 c3 c4 show ?thesis by blast
qed

subsection \<open>The type of a response, and what it holds after a failure\<close>

text \<open>
  Claim C9, as the code has it. Every call of \<open>getResource\<close> sends one response, and its
  result is a non-nil pointer to a value of the requested type. That value is the zero
  value when the fetch failed before decoding (the transport failed, or the status was
  not 200); when decoding itself failed it is what \<open>json.Unmarshal\<close> left there. So
  the type assertions of \<open>BrokerInfo\<close> and of the accessors never panic and every
  accessor returns. With the error, an accessor returns the zero value of its type on a
  fetch that failed before decoding, and what \<open>json.Unmarshal\<close> left on a fetch whose
  decoding failed.
\<close>

theorem getResource_response_typed:
  "(\<exists>m. getResource L s request = [m] \<and> type_of (result m) = Some (t_req request) \<and>
      (failed_before_decoding s (uri_req request) \<longrightarrow>
         result m = reflect_New L (t_req request) \<and> err m \<noteq> None) \<and>
      (\<forall>resp e. Get (client s) (uri_req request) = Inr resp \<longrightarrow> StatusCode resp = 200 \<longrightarrow>
         snd (json_Unmarshal L (Body resp) (reflect_New L (t_req request))) = Some e \<longrightarrow>
         result m = fst (json_Unmarshal L (Body resp) (reflect_New L (t_req request))) \<and>
         err m = Some (UnmarshalError e))) \<and>
   BrokerInfo L s sched \<noteq> Panic \<and>
   (\<exists>v e. Overview_accessor L s = Return (v, e)) \<and>
   (\<exists>v e. Connections_accessor L s = Return (v, e)) \<and>
   (\<exists>v e. Exchanges_accessor L s = Return (v, e)) \<and>
   (\<exists>v e. Queues_accessor L s = Return (v, e)) \<and>
   (\<exists>v e. Consumers_accessor L s = Return (v, e)) \<and>
   (\<exists>v e. Bindings_accessor L s = Return (v, e)) \<and>
   (failed_before_decoding s (uri s @ ''/overview'') \<longrightarrow>
      (\<exists>e. Overview_accessor L s = Return (zero_RabbitOverview L, Some e))) \<and>
   (failed_before_decoding s (uri s @ ''/connections'') \<longrightarrow>
      (\<exists>e. Connections_accessor L s = Return ([], Some e))) \<and>
   (failed_before_decoding s (uri s @ ''/exchanges'') \<longrightarrow>
      (\<exists>e. Exchanges_accessor L s = Return ([], Some e))) \<and>
   (failed_before_decoding s (uri s @ ''/queues'') \<longrightarrow>
      (\<exists>e. Queues_accessor L s = Return ([], Some e))) \<and>
   (failed_before_decoding s (uri s @ ''/consumers'') \<longrightarrow>
      (\<exists>e. Consumers_accessor L s = Return ([], Some e))) \<and>
   (failed_before_decoding s (uri s @ ''/bindings'') \<longrightarrow>
      (\<exists>e. Bindings_accessor L s = Return ([], Some e))) \<and>
   (\<forall>resp e. Get (client s) (uri s @ ''/overview'') = Inr resp \<longrightarrow> StatusCode resp = 200 \<longrightarrow>
      snd (Unmarshal_RabbitOverview L (Body resp) (zero_RabbitOverview L)) = Some e \<longrightarrow>
      Overview_accessor L s =
        Return (fst (Unmarshal_RabbitOverview L (Body resp) (zero_RabbitOverview L)), Some (UnmarshalError e))) \<and>
   (\<forall>resp e. Get (client s) (uri s @ ''/connections'') = Inr resp \<longrightarrow> StatusCode resp = 200 \<longrightarrow>
      snd (Unmarshal_RabbitConnections L (Body resp) []) = Some e \<longrightarrow>
      Connections_accessor L s =
        Return (fst (Unmarshal_RabbitConnections L (Body resp) []), Some (UnmarshalError e))) \<and>
   (\<forall>resp e. Get (client s) (uri s @ ''/exchanges'') = Inr resp \<longrightarrow> StatusCode resp = 200 \<longrightarrow>
      snd (Unmarshal_RabbitExchanges L (Body resp) []) = Some e \<longrightarrow>
      Exchanges_accessor L s =
        Return (fst (Unmarshal_RabbitExchanges L (Body resp) []), Some (UnmarshalError e))) \<and>
   (\<forall>resp e. Get (client s) (uri s @ ''/queues'') = Inr resp \<longrightarrow> StatusCode resp = 200 \<longrightarrow>
      snd (Unmarshal_RabbitQueues L (Body resp) []) = Some e \<longrightarrow>
      Queues_accessor L s =
        Return (fst (Unmarshal_RabbitQueues L (Body resp) []), Some (UnmarshalError e))) \<and>
   (\<forall>resp e. Get (client s) (uri s @ ''/consumers'') = Inr resp \<longrightarrow> StatusCode resp = 200 \<longrightarrow>
      snd (Unmarshal_RabbitConsumers L (Body resp) []) = Some e \<longrightarrow>
      Consumers_accessor L s =
        Return (fst (Unmarshal_RabbitConsumers L (Body resp) []), Some (UnmarshalError e))) \<and>
   (\<forall>resp e. Get (client s) (uri s @ ''/bindings'') = Inr resp \<longrightarrow> StatusCode resp = 200 \<longrightarrow>
      snd (Unmarshal_RabbitBindings L (Body resp) []) = Some e \<longrightarrow>
      Bindings_accessor L s =
        Return (fst (Unmarshal_RabbitBindings L (Body resp) []), Some (UnmarshalError e)))"
proof -
  note g = getResource_typed_values [of L s request]
  note p = BrokerInfo_no_panic [of L s sched]
  note r = accessors_return [of L s]
  note z = accessors_zero [of s L]
  note d = accessors_decode_failure [of s _ L]
  show ?thesis
    by (intro conjI impI allI) (rule g p r | erule z | erule d, assumption, assumption)+
qed

text \<open>
  A broker that is down, where every connection is refused, and one whose list of
  connections has a second element that does not fit.
\<close>

theorem getResource_response_typed_witness:
  "failed_before_decoding (mock_client []) ''mq/connections'' \<and>
   (\<exists>e. Connections_accessor mock_lib (mock_client []) = Return ([], Some e)) \<and>
   (\<exists>e. map result (getResource mock_lib (mock_client [])
            \<lparr>uri_req = ''mq/connections'', t_req = type_RabbitConnections\<rparr>)
           = [ptr_RabbitConnections []] \<and>
         map err (getResource mock_lib (mock_client [])
            \<lparr>uri_req = ''mq/connections'', t_req = type_RabbitConnections\<rparr>) = [Some e]) \<and>
   getResource mock_lib (mock_client [(''mq/connections'', reply 200 ''200 OK'' ''[a,7]'')])
       \<lparr>uri_req = ''mq/connections'', t_req = type_RabbitConnections\<rparr>
     = [\<lparr>result = ptr_RabbitConnections [''a'', []],
         err = Some (UnmarshalError ''cannot unmarshal number'')\<rparr>]"
proof -
  let ?cn = "\<lparr>uri_req = ''mq/connections'', t_req = type_RabbitConnections\<rparr>"
  let ?bad = "mock_client [(''mq/connections'', reply 200 ''200 OK'' ''[a,7]'')]"
  let ?resp = "\<lparr>StatusCode = 200, Status = ''200 OK'', Body = ''[a,7]''\<rparr>"
  have f: "failed_before_decoding (mock_client []) ''mq/connections''"
    by (simp add: failed_before_decoding_def mock_client_def)
  have f1: "failed_before_decoding (mock_client []) (uri (mock_client []) @ ''/connections'')"
    using f by (simp add: mock_client_def)
  have f2: "failed_before_decoding (mock_client []) (uri_req ?cn)"
    using f by simp
  have z: "reflect_New mock_lib (t_req ?cn) = ptr_RabbitConnections []"
    by simp
  note down = getResource_response_typed [of mock_lib "mock_client []" ?cn in_order]
  have "failed_before_decoding (mock_client []) (uri (mock_client []) @ ''/connections'') \<longrightarrow>
          (\<exists>e. Connections_accessor mock_lib (mock_client []) = Return ([], Some e))"
    using down by (elim conjE)
  with f1 have a: "\<exists>e. Connections_accessor mock_lib (mock_client []) = Return ([], Some e)"
    by (rule rev_mp)
  have "\<exists>m. getResource mock_lib (mock_client []) ?cn = [m] \<and>
          type_of (result m) = Some (t_req ?cn) \<and>
          (failed_before_decoding (mock_client []) (uri_req ?cn) \<longrightarrow>
             result m = reflect_New mock_lib (t_req ?cn) \<and> err m \<noteq> None) \<and>
          (\<forall>resp e. Get (client (mock_client [])) (uri_req ?cn) = Inr resp \<longrightarrow>
             StatusCode resp = 200 \<longrightarrow>
             snd (json_Unmarshal mock_lib (Body resp) (reflect_New mock_lib (t_req ?cn))) = Some e \<longrightarrow>
             result m = fst (json_Unmarshal mock_lib (Body resp) (reflect_New mock_lib (t_req ?cn))) \<and>
             err m = Some (UnmarshalError e))"
    using down by (elim conjE)
  with f2 obtain m where m: "getResource mock_lib (mock_client []) ?cn = [m]"
      "result m = reflect_New mock_lib (t_req ?cn)" "err m \<noteq> None"
    by blast
  then obtain e where "err m = Some e" by blast
  with m z have "map result (getResource mock_lib (mock_client []) ?cn)
                   = [ptr_RabbitConnections []] \<and>
                 map err (getResource mock_lib (mock_client []) ?cn) = [Some e]"
    by simp
  then have b: "\<exists>e. map result (getResource mock_lib (mock_client []) ?cn)
                   = [ptr_RabbitConnections []] \<and>
                 map err (getResource mock_lib (mock_client []) ?cn) = [Some e]" ..
  have g: "Get (client ?bad) (uri_req ?cn) = Inr ?resp"
    by (simp add: mock_client_def reply_def)
  have c: "StatusCode ?resp = 200" by simp
  have u: "snd (json_Unmarshal mock_lib (Body ?resp) (reflect_New mock_lib (t_req ?cn)))
             = Some ''cannot unmarshal number''"
    and v: "fst (json_Unmarshal mock_lib (Body ?resp) (reflect_New mock_lib (t_req ?cn)))
             = ptr_RabbitConnections [''a'', []]"
    by (simp_all add: mock_lib_def mock_Unmarshal_list_def)
  have "\<exists>m. getResource mock_lib ?bad ?cn = [m] \<and>
          type_of (result m) = Some (t_req ?cn) \<and>
          (failed_before_decoding ?bad (uri_req ?cn) \<longrightarrow>
             result m = reflect_New mock_lib (t_req ?cn) \<and> err m \<noteq> None) \<and>
          (\<forall>resp e. Get (client ?bad) (uri_req ?cn) = Inr resp \<longrightarrow>
             StatusCode resp = 200 \<longrightarrow>
             snd (json_Unmarshal mock_lib (Body resp) (reflect_New mock_lib (t_req ?cn))) = Some e \<longrightarrow>
             result m = fst (json_Unmarshal mock_lib (Body resp) (reflect_New mock_lib (t_req ?cn))) \<and>
             err m = Some (UnmarshalError e))"
    using getResource_response_typed [of mock_lib ?bad ?cn in_order] by (elim conjE)
  with g c u obtain m' where m': "getResource mock_lib ?bad ?cn = [m']"
      "result m' = fst (json_Unmarshal mock_lib (Body ?resp) (reflect_New mock_lib (t_req ?cn)))"
      "err m' = Some (UnmarshalError ''cannot unmarshal number'')"
    by blast
  from m'(2,3) v have "m' = \<lparr>result = ptr_RabbitConnections [''a'', []],
         err = Some (UnmarshalError ''cannot unmarshal number'')\<rparr>"
    by (cases m') simp
  with m'(1) have d: "getResource mock_lib ?bad ?cn
     = [\<lparr>result = ptr_RabbitConnections [''a'', []],
         err = Some (UnmarshalError ''cannot unmarshal number'')\<rparr>]" by simp
  from f a b d show ?thesis by (intro conjI)
qed

text \<open>
  The claim as first stated, with the zero value also when decoding failed, does not
  hold: on a body whose second element does not fit, the fetch fails and \<open>Connections\<close>
  returns the list the decoder had filled, which is not the zero value \<open>[]\<close>.
\<close>

theorem Connections_nonzero_on_decode_error:
  "Connections_accessor mock_lib
      (mock_client ((''mq/connections'', reply 200 ''200 OK'' ''[a,7]'') # healthy))
     = Return ([''a'', []], Some (UnmarshalError ''cannot unmarshal number'')) \<and>
   reflect_New mock_lib type_RabbitConnections = ptr_RabbitConnections [] \<and>
   [''a'', []] \<noteq> ([] :: string list)"
  by (simp add: Connections_accessor_def getConnections_def getResource_def mock_client_def
        reply_def mock_lib_def mock_Unmarshal_list_def)

subsection \<open>The accessors\<close>

text \<open>
  Claim C6. Each of the six accessors returns the value and the error of the one
  response of its fetch, unchanged. In particular, when the GET on \<open>/connections\<close>
  answers 200 and the body decodes to a list of two connections, \<open>Connections\<close>
  returns these two records and a nil error.
\<close>

theorem accessors_return_fetch:
  "(\<exists>m v. getConnections L s = [m] \<and> result m = ptr_RabbitConnections v \<and>
      Connections_accessor L s = Return (v, err m)) \<and>
   (\<exists>m v. getOverview L s = [m] \<and> result m = ptr_RabbitOverview v \<and>
      Overview_accessor L s = Return (v, err m)) \<and>
   (\<exists>m v. getExchanges L s = [m] \<and> result m = ptr_RabbitExchanges v \<and>
      Exchanges_accessor L s = Return (v, err m)) \<and>
   (\<exists>m v. getQueues L s = [m] \<and> result m = ptr_RabbitQueues v \<and>
      Queues_accessor L s = Return (v, err m)) \<and>
   (\<exists>m v. getConsumers L s = [m] \<and> result m = ptr_RabbitConsumers v \<and>
      Consumers_accessor L s = Return (v, err m)) \<and>
   (\<exists>m v. getBindings L s = [m] \<and> result m = ptr_RabbitBindings v \<and>
      Bindings_accessor L s = Return (v, err m)) \<and>
   (\<forall>resp c1 c2.
      Get (client s) (uri s @ ''/connections'') = Inr resp \<longrightarrow> StatusCode resp = 200 \<longrightarrow>
      Unmarshal_RabbitConnections L (Body resp) [] = ([c1, c2], None) \<longrightarrow>
      Connections_accessor L s = Return ([c1, c2], None))"
  using Connections_accessor_fetch [of L s] Overview_accessor_fetch [of L s]
    Exchanges_accessor_fetch [of L s] Queues_accessor_fetch [of L s]
    Consumers_accessor_fetch [of L s] Bindings_accessor_fetch [of L s]
    Connections_accessor_decoded [of s _ L]
  by blast

theorem accessors_return_fetch_witness:
  "Connections_accessor mock_lib (mock_client healthy) = Return ([''a'', ''b''], None)"
proof -
  let ?resp = "\<lparr>StatusCode = 200, Status = ''200 OK'', Body = ''[a,b]''\<rparr>"
  have g: "Get (client (mock_client healthy)) (uri (mock_client healthy) @ ''/connections'')
             = Inr ?resp"
    by (simp add: mock_client_def healthy_def healthy_lists_def reply_def)
  have u: "Unmarshal_RabbitConnections mock_lib (Body ?resp) [] = ([''a'', ''b''], None)"
    by (simp add: mock_lib_def mock_Unmarshal_list_def)
  have c: "StatusCode ?resp = 200" by simp
  from accessors_return_fetch [of mock_lib "mock_client healthy"]
  have "\<forall>resp c1 c2.
      Get (client (mock_client healthy)) (uri (mock_client healthy) @ ''/connections'') = Inr resp
        \<longrightarrow> StatusCode resp = 200 \<longrightarrow>
      Unmarshal_RabbitConnections mock_lib (Body resp) [] = ([c1, c2], None) \<longrightarrow>
      Connections_accessor mock_lib (mock_client healthy) = Return ([c1, c2], None)"
    by blast
  with g c u show ?thesis by blast
qed

subsection \<open>delResource and CloseConnection\<close>

text \<open>
  Claim C7, as the code has it. A deletion returns nil if and only if the DELETE
  completed with status 200 or 204. For any other status it returns an error whose text
  is the status text of the response, as it is. So a 204 is a success, and a 404 is an
  error whose text is that status text: it holds \<open>404\<close> exactly when the status text
  does. \<open>CloseConnection\<close> is \<open>delResource\<close> on the connection's URI.
\<close>

theorem delResource_status:
  "(snd (delResource L s u) = None \<longleftrightarrow>
      (\<exists>req resp. http_NewRequest L ''DELETE'' u = Inr req \<and> Do (client s) req = Inr resp \<and>
         (StatusCode resp = 200 \<or> StatusCode resp = 204))) \<and>
   (\<forall>req resp. http_NewRequest L ''DELETE'' u = Inr req \<longrightarrow> Do (client s) req = Inr resp \<longrightarrow>
      StatusCode resp \<noteq> 200 \<longrightarrow> StatusCode resp \<noteq> 204 \<longrightarrow>
      snd (delResource L s u) = Some (errorString (Status resp)) \<and>
      Error (errorString (Status resp)) = Status resp) \<and>
   (\<forall>req resp. http_NewRequest L ''DELETE'' u = Inr req \<longrightarrow> Do (client s) req = Inr resp \<longrightarrow>
      StatusCode resp = 204 \<longrightarrow> snd (delResource L s u) = None) \<and>
   (\<forall>req resp. http_NewRequest L ''DELETE'' u = Inr req \<longrightarrow> Do (client s) req = Inr resp \<longrightarrow>
      StatusCode resp = 404 \<longrightarrow>
      (\<exists>e. snd (delResource L s u) = Some e \<and> Error e = Status resp \<and>
           (sublist ''404'' (Error e) \<longleftrightarrow> sublist ''404'' (Status resp)))) \<and>
   CloseConnection L s conn reason = delResource L s (uri s @ ''/connections/'' @ conn)"
proof -
  have close: "CloseConnection L s conn reason = delResource L s (uri s @ ''/connections/'' @ conn)"
    by (simp add: CloseConnection_def)
  show ?thesis
  proof (cases "http_NewRequest L ''DELETE'' u")
    case (Inl e)
    with close show ?thesis by (simp add: delResource_def)
  next
    case req: (Inr req)
    show ?thesis
    proof (cases "Do (client s) req")
      case (Inl e)
      with req close show ?thesis by (simp add: delResource_def)
    next
      case (Inr resp)
      with req close show ?thesis by (auto simp: delResource_def)
    qed
  qed
qed

text \<open>On the mocked transport: a 204 and a 404 for two connections.\<close>

theorem delResource_status_witness:
  "snd (CloseConnection mock_lib
          (mock_client [(''mq/connections/c1'', reply 204 ''204 No Content'' [])])
          ''c1'' ''bye'') = None \<and>
   snd (CloseConnection mock_lib
          (mock_client [(''mq/connections/c2'', reply 404 ''404 Not Found'' [])])
          ''c2'' ''bye'') = Some (errorString ''404 Not Found'') \<and>
   sublist ''404'' (Error (errorString ''404 Not Found''))"
proof -
  let ?s1 = "mock_client [(''mq/connections/c1'', reply 204 ''204 No Content'' [])]"
  let ?s2 = "mock_client [(''mq/connections/c2'', reply 404 ''404 Not Found'' [])]"
  let ?q1 = "\<lparr>Method = ''DELETE'', URL = ''mq/connections/c1''\<rparr>"
  let ?q2 = "\<lparr>Method = ''DELETE'', URL = ''mq/connections/c2''\<rparr>"
  let ?r1 = "\<lparr>StatusCode = 204, Status = ''204 No Content'', Body = []\<rparr>"
  let ?r2 = "\<lparr>StatusCode = 404, Status = ''404 Not Found'', Body = []\<rparr>"
  have n1: "http_NewRequest mock_lib ''DELETE'' ''mq/connections/c1'' = Inr ?q1"
    and n2: "http_NewRequest mock_lib ''DELETE'' ''mq/connections/c2'' = Inr ?q2"
    by (simp_all add: http_NewRequest_def mock_lib_def)
  have d1: "Do (client ?s1) ?q1 = Inr ?r1" and d2: "Do (client ?s2) ?q2 = Inr ?r2"
    by (simp_all add: mock_client_def reply_def)
  have s1: "StatusCode ?r1 = 204"
    and s2: "StatusCode ?r2 \<noteq> 200" "StatusCode ?r2 \<noteq> 204" "StatusCode ?r2 = 404"
    by simp_all
  have t2: "sublist ''404'' (Status ?r2)" by simp
  have u1: "uri ?s1 @ ''/connections/'' @ ''c1'' = ''mq/connections/c1''"
    and u2: "uri ?s2 @ ''/connections/'' @ ''c2'' = ''mq/connections/c2''"
    by (simp_all add: mock_client_def)
  have a: "snd (delResource mock_lib ?s1 ''mq/connections/c1'') = None"
    using delResource_status [of mock_lib ?s1 "''mq/connections/c1''"] n1 d1 s1 by blast
  have b: "snd (delResource mock_lib ?s2 ''mq/connections/c2'')
             = Some (errorString (Status ?r2))"
    using delResource_status [of mock_lib ?s2 "''mq/connections/c2''"] n2 d2 s2 by blast
  obtain e where e: "snd (delResource mock_lib ?s2 ''mq/connections/c2'') = Some e"
      "sublist ''404'' (Error e) \<longleftrightarrow> sublist ''404'' (Status ?r2)"
    using delResource_status [of mock_lib ?s2 "''mq/connections/c2''"] n2 d2 s2 by blast
  have c1: "CloseConnection mock_lib ?s1 ''c1'' ''bye'' = delResource mock_lib ?s1 ''mq/connections/c1''"
    using delResource_status [of mock_lib ?s1 _ "''c1''" "''bye''"] u1 by simp
  have c2: "CloseConnection mock_lib ?s2 ''c2'' ''bye'' = delResource mock_lib ?s2 ''mq/connections/c2''"
    using delResource_status [of mock_lib ?s2 _ "''c2''" "''bye''"] u2 by simp
  from e b t2 have "sublist ''404'' (Error (errorString ''404 Not Found''))" by simp
  with a b c1 c2 show ?thesis by simp
qed

text \<open>
  The claim as first stated, with a text that holds \<open>404\<close> for every response of
  status 404, does not hold: the text of the error is the status text and nothing else.
  A transport that answers with the status code 404 and the status text \<open>Not Found\<close>
  gives the error \<open>Not Found\<close>.
\<close>

theorem delResource_404_text_is_status_text:
  "snd (delResource mock_lib
          (mock_client [(''mq/connections/c2'', reply 404 ''Not Found'' [])])
          ''mq/connections/c2'') = Some (errorString ''Not Found'') \<and>
   Error (errorString ''Not Found'') = ''Not Found'' \<and>
   \<not> sublist ''404'' ''Not Found''"
  by (simp add: delResource_def http_NewRequest_def mock_lib_def mock_client_def reply_def
        sublist_Cons_right)

text \<open>
  Claim C10. The reason given to \<open>CloseConnection\<close> has no effect: with any two
  reasons the call hands the same requests to the transport and returns the same error.
  It sends at most one request, a DELETE on the URI of the connection.
\<close>

theorem CloseConnection_ignores_reason:
  "CloseConnection L s conn r1 = CloseConnection L s conn r2 \<and>
   (fst (CloseConnection L s conn r1) = [] \<or>
    fst (CloseConnection L s conn r1)
      = [\<lparr>Method = ''DELETE'', URL = uri s @ ''/connections/'' @ conn\<rparr>])"
  by (simp add: CloseConnection_def delResource_def http_NewRequest_def
        split: option.split sum.split)

subsection \<open>BrokerInfo\<close>

text \<open>
  Claim C8. In every run of \<open>BrokerInfo\<close>, whatever the scheduler does and whatever
  the fetches answer, the events of the main goroutine are: the six goroutines started,
  one for each of overview, connections, exchanges, queues, consumers and bindings, each
  by its call of \<open>getResource\<close>; after these, receives only. So all six fetches are
  started before any result is consumed, and no fetch waits for the result of another
  to start. Results are consumed: with a scheduler that takes every channel at some
  point there is a receive.
\<close>

theorem BrokerInfo_starts_all_first:
  "\<exists>cs. fst (BrokerInfo_run L s sched) =
           [Go \<lparr>uri_req = uri s @ ''/overview'', t_req = type_RabbitOverview\<rparr>,
            Go \<lparr>uri_req = uri s @ ''/connections'', t_req = type_RabbitConnections\<rparr>,
            Go \<lparr>uri_req = uri s @ ''/exchanges'', t_req = type_RabbitExchanges\<rparr>,
            Go \<lparr>uri_req = uri s @ ''/queues'', t_req = type_RabbitQueues\<rparr>,
            Go \<lparr>uri_req = uri s @ ''/consumers'', t_req = type_RabbitConsumers\<rparr>,
            Go \<lparr>uri_req = uri s @ ''/bindings'', t_req = type_RabbitBindings\<rparr>] @
           map Recv cs \<and>
         (set sched = UNIV \<longrightarrow> cs \<noteq> [])"
proof -
  obtain cs where cs: "fst (BrokerInfo_loop (fetches L s) sched (zero_BrokerInfo L) 0) = map Recv cs"
    using BrokerInfo_loop_events by blast
  have "cs \<noteq> []" if "set sched = UNIV"
  proof -
    from that have "overview \<in> set sched" by simp
    then have "fst (BrokerInfo_loop (fetches L s) sched (zero_BrokerInfo L) 0) \<noteq> []"
      using fetches_nonempty by (rule BrokerInfo_loop_receives)
    with cs show ?thesis by auto
  qed
  then have ne: "set sched = UNIV \<longrightarrow> cs \<noteq> []" by simp
  have "fst (BrokerInfo_run L s sched) =
           [Go \<lparr>uri_req = uri s @ ''/overview'', t_req = type_RabbitOverview\<rparr>,
            Go \<lparr>uri_req = uri s @ ''/connections'', t_req = type_RabbitConnections\<rparr>,
            Go \<lparr>uri_req = uri s @ ''/exchanges'', t_req = type_RabbitExchanges\<rparr>,
            Go \<lparr>uri_req = uri s @ ''/queues'', t_req = type_RabbitQueues\<rparr>,
            Go \<lparr>uri_req = uri s @ ''/consumers'', t_req = type_RabbitConsumers\<rparr>,
            Go \<lparr>uri_req = uri s @ ''/bindings'', t_req = type_RabbitBindings\<rparr>] @
           map Recv cs"
    using cs by (simp add: BrokerInfo_run_fetches del: list.map)
  with ne show ?thesis by (intro exI [where x = cs] conjI)
qed

text \<open>The broker that answers all six requests, taken in the order of the cases.\<close>

theorem BrokerInfo_starts_all_first_witness:
  "set in_order = UNIV \<and>
   fst (BrokerInfo_run mock_lib (mock_client healthy) in_order) =
     [Go \<lparr>uri_req = ''mq/overview'', t_req = type_RabbitOverview\<rparr>,
      Go \<lparr>uri_req = ''mq/connections'', t_req = type_RabbitConnections\<rparr>,
      Go \<lparr>uri_req = ''mq/exchanges'', t_req = type_RabbitExchanges\<rparr>,
      Go \<lparr>uri_req = ''mq/queues'', t_req = type_RabbitQueues\<rparr>,
      Go \<lparr>uri_req = ''mq/consumers'', t_req = type_RabbitConsumers\<rparr>,
      Go \<lparr>uri_req = ''mq/bindings'', t_req = type_RabbitBindings\<rparr>,
      Recv overview, Recv connections, Recv exchanges, Recv queues, Recv consumers,
      Recv bindings] \<and>
   [Recv overview, Recv connections, Recv exchanges, Recv queues, Recv consumers,
    Recv bindings] \<noteq> []"
proof -
  have fair: "set in_order = UNIV"
    by (simp add: in_order_def UNIV_chan_id)
  have run: "fst (BrokerInfo_run mock_lib (mock_client healthy) in_order) =
     [Go \<lparr>uri_req = ''mq/overview'', t_req = type_RabbitOverview\<rparr>,
      Go \<lparr>uri_req = ''mq/connections'', t_req = type_RabbitConnections\<rparr>,
      Go \<lparr>uri_req = ''mq/exchanges'', t_req = type_RabbitExchanges\<rparr>,
      Go \<lparr>uri_req = ''mq/queues'', t_req = type_RabbitQueues\<rparr>,
      Go \<lparr>uri_req = ''mq/consumers'', t_req = type_RabbitConsumers\<rparr>,
      Go \<lparr>uri_req = ''mq/bindings'', t_req = type_RabbitBindings\<rparr>] @
     map Recv [overview, connections, exchanges, queues, consumers, bindings]"
    by (simp add: mock_eval)
  from BrokerInfo_starts_all_first [of mock_lib "mock_client healthy" in_order]
  obtain cs where cs: "fst (BrokerInfo_run mock_lib (mock_client healthy) in_order) =
     [Go \<lparr>uri_req = uri (mock_client healthy) @ ''/overview'', t_req = type_RabbitOverview\<rparr>,
      Go \<lparr>uri_req = uri (mock_client healthy) @ ''/connections'', t_req = type_RabbitConnections\<rparr>,
      Go \<lparr>uri_req = uri (mock_client healthy) @ ''/exchanges'', t_req = type_RabbitExchanges\<rparr>,
      Go \<lparr>uri_req = uri (mock_client healthy) @ ''/queues'', t_req = type_RabbitQueues\<rparr>,
      Go \<lparr>uri_req = uri (mock_client healthy) @ ''/consumers'', t_req = type_RabbitConsumers\<rparr>,
      Go \<lparr>uri_req = uri (mock_client healthy) @ ''/bindings'', t_req = type_RabbitBindings\<rparr>] @
     map Recv cs" and ne: "set in_order = UNIV \<longrightarrow> cs \<noteq> []"
    by (elim exE conjE)
  from cs run have "map Recv cs = map Recv [overview, connections, exchanges, queues, consumers, bindings]"
    by (simp add: mock_client_def del: list.map)
  moreover have "inj Recv" by (simp add: inj_def)
  ultimately have "cs = [overview, connections, exchanges, queues, consumers, bindings]"
    by (simp only: inj_map_eq_map)
  with ne fair have "[Recv overview, Recv connections, Recv exchanges, Recv queues,
                      Recv consumers, Recv bindings] \<noteq> []" by simp
  with fair run show ?thesis by simp
qed

text \<open>
  Claim C3, as the code has it. If every one of the six fetches succeeds, then, with a
  scheduler that takes every channel at some point, \<open>BrokerInfo\<close> returns a nil error
  and a \<open>BrokerInfo\<close> value in which each of the six fields is the value decoded by
  the fetch of that resource. (A field is empty when the decoded value is.)
\<close>

theorem BrokerInfo_all_succeed:
  assumes "set sched = UNIV"
    and "\<forall>c. map err (fetches L s c) = [None]"
  shows "\<exists>r. BrokerInfo L s sched = Return (r, None) \<and>
     getOverview L s = [\<lparr>result = ptr_RabbitOverview (Overview r), err = None\<rparr>] \<and>
     getConnections L s = [\<lparr>result = ptr_RabbitConnections (Connections r), err = None\<rparr>] \<and>
     getExchanges L s = [\<lparr>result = ptr_RabbitExchanges (Exchanges r), err = None\<rparr>] \<and>
     getQueues L s = [\<lparr>result = ptr_RabbitQueues (Queues r), err = None\<rparr>] \<and>
     getConsumers L s = [\<lparr>result = ptr_RabbitConsumers (Consumers r), err = None\<rparr>] \<and>
     getBindings L s = [\<lparr>result = ptr_RabbitBindings (Bindings r), err = None\<rparr>]"
proof -
  obtain r e where ret: "BrokerInfo L s sched = Return (r, e)"
    using BrokerInfo_returns [OF assms(1)] by blast
  have "e = None"
  proof (cases e)
    case (Some x)
    with ret have "BrokerInfo L s sched = Return (r, Some x)" by simp
    then have "\<exists>c. c \<noteq> overview \<and> map err (fetches L s c) = [Some x]"
      by (rule BrokerInfo_error_origin)
    then obtain c where "map err (fetches L s c) = [Some x]" by (elim exE conjE)
    with assms(2) have False by simp
    then show ?thesis ..
  qed simp
  with ret have ok: "BrokerInfo L s sched = Return (r, None)" by simp
  have msg: "fetches L s c = [\<lparr>result = field c r, err = None\<rparr>]" for c
  proof -
    obtain m where m: "fetches L s c = [m]" using fetches_single by blast
    moreover from assms(2) have "map err (fetches L s c) = [None]" ..
    ultimately have "result m = field c r" "err m = None"
      using BrokerInfo_fields [OF ok, of c] by simp_all
    then have "m = \<lparr>result = field c r, err = None\<rparr>" by (cases m) simp
    with m show ?thesis by simp
  qed
  have "getOverview L s = [\<lparr>result = ptr_RabbitOverview (Overview r), err = None\<rparr>]"
    using msg [of overview] by (simp add: fetches_def)
  moreover
  have "getConnections L s = [\<lparr>result = ptr_RabbitConnections (Connections r), err = None\<rparr>]"
    using msg [of connections] by (simp add: fetches_def)
  moreover
  have "getExchanges L s = [\<lparr>result = ptr_RabbitExchanges (Exchanges r), err = None\<rparr>]"
    using msg [of exchanges] by (simp add: fetches_def)
  moreover
  have "getQueues L s = [\<lparr>result = ptr_RabbitQueues (Queues r), err = None\<rparr>]"
    using msg [of queues] by (simp add: fetches_def)
  moreover
  have "getConsumers L s = [\<lparr>result = ptr_RabbitConsumers (Consumers r), err = None\<rparr>]"
    using msg [of consumers] by (simp add: fetches_def)
  moreover
  have "getBindings L s = [\<lparr>result = ptr_RabbitBindings (Bindings r), err = None\<rparr>]"
    using msg [of bindings] by (simp add: fetches_def)
  ultimately show ?thesis using ok by blast
qed

text \<open>The broker that answers all six requests, taken in the order of the cases.\<close>

theorem BrokerInfo_all_succeed_witness:
  "set in_order = UNIV \<and>
   BrokerInfo mock_lib (mock_client healthy) in_order =
     Return (\<lparr>Overview = ''x'', Connections = [''a'', ''b''], Exchanges = [''a'', ''b''],
              Queues = [''a'', ''b''], Consumers = [], Bindings = [''a'', ''b'']\<rparr>, None)"
proof -
  let ?s = "mock_client healthy"
  have fair: "set in_order = UNIV"
    by (simp add: in_order_def UNIV_chan_id)
  have ok: "\<forall>c. map err (fetches mock_lib ?s c) = [None]"
  proof
    fix c show "map err (fetches mock_lib ?s c) = [None]"
      by (cases c) (simp_all add: mock_eval)
  qed
  obtain r where r: "BrokerInfo mock_lib ?s in_order = Return (r, None)"
    "getOverview mock_lib ?s = [\<lparr>result = ptr_RabbitOverview (Overview r), err = None\<rparr>]"
    "getConnections mock_lib ?s = [\<lparr>result = ptr_RabbitConnections (Connections r), err = None\<rparr>]"
    "getExchanges mock_lib ?s = [\<lparr>result = ptr_RabbitExchanges (Exchanges r), err = None\<rparr>]"
    "getQueues mock_lib ?s = [\<lparr>result = ptr_RabbitQueues (Queues r), err = None\<rparr>]"
    "getConsumers mock_lib ?s = [\<lparr>result = ptr_RabbitConsumers (Consumers r), err = None\<rparr>]"
    "getBindings mock_lib ?s = [\<lparr>result = ptr_RabbitBindings (Bindings r), err = None\<rparr>]"
    using BrokerInfo_all_succeed [OF fair ok] by blast
  have "Overview r = ''x''" using r(2) by (simp add: mock_eval)
  moreover have "Connections r = [''a'', ''b'']" using r(3) by (simp add: mock_eval)
  moreover have "Exchanges r = [''a'', ''b'']" using r(4) by (simp add: mock_eval)
  moreover have "Queues r = [''a'', ''b'']" using r(5) by (simp add: mock_eval)
  moreover have "Consumers r = []" using r(6) by (simp add: mock_eval)
  moreover have "Bindings r = [''a'', ''b'']" using r(7) by (simp add: mock_eval)
  ultimately have "r = \<lparr>Overview = ''x'', Connections = [''a'', ''b''],
      Exchanges = [''a'', ''b''], Queues = [''a'', ''b''], Consumers = [],
      Bindings = [''a'', ''b'']\<rparr>"
    by (cases r) simp
  with r(1) fair show ?thesis by simp
qed

text \<open>
  The claim as first stated, with no field left at its default or empty value, does not
  hold: this broker has no consumers, all six fetches succeed, and the field
  \<open>Consumers\<close> of the value returned is the empty list, as in the zero value.
\<close>

theorem BrokerInfo_empty_field_on_success:
  "map err (concat (map (fetches mock_lib (mock_client healthy)) in_order))
     = [None, None, None, None, None, None] \<and>
   BrokerInfo mock_lib (mock_client healthy) in_order =
     Return (\<lparr>Overview = ''x'', Connections = [''a'', ''b''], Exchanges = [''a'', ''b''],
              Queues = [''a'', ''b''], Consumers = [], Bindings = [''a'', ''b'']\<rparr>, None) \<and>
   Consumers (zero_BrokerInfo mock_lib) = []"
  by (simp add: mock_eval)

text \<open>
  Claim C5. If exactly two of the six fetches end with an error and the other four
  succeed, then, with a scheduler that takes every channel at some point, \<open>BrokerInfo\<close>
  returns a non-nil error, and that error is one of the two errors of these fetches.
\<close>

theorem BrokerInfo_two_errors:
  assumes "set sched = UNIV"
    and "a \<noteq> b"
    and "map err (fetches L s a) = [Some ea]"
    and "map err (fetches L s b) = [Some eb]"
    and "\<forall>c. c \<noteq> a \<longrightarrow> c \<noteq> b \<longrightarrow> map err (fetches L s c) = [None]"
  shows "\<exists>r. BrokerInfo L s sched = Return (r, Some ea) \<or>
              BrokerInfo L s sched = Return (r, Some eb)"
proof -
  obtain r e where ret: "BrokerInfo L s sched = Return (r, e)"
    using BrokerInfo_returns [OF assms(1)] by blast
  obtain d ed where d: "d \<noteq> overview" "map err (fetches L s d) = [Some ed]"
  proof (cases "a = overview")
    case True
    with assms(2) have "b \<noteq> overview" by simp
    then show ?thesis using assms(4) by (rule that)
  next
    case False
    then show ?thesis using assms(3) by (rule that)
  qed
  have "BrokerInfo L s sched \<noteq> Return (r, None)"
    using d by (rule BrokerInfo_pending_error)
  have "e \<noteq> None"
  proof
    assume "e = None"
    with ret have "BrokerInfo L s sched = Return (r, None)" by simp
    with \<open>BrokerInfo L s sched \<noteq> Return (r, None)\<close> show False ..
  qed
  then obtain x where x: "e = Some x" by (cases e) simp_all
  with ret have retx: "BrokerInfo L s sched = Return (r, Some x)" by simp
  then have "\<exists>c. c \<noteq> overview \<and> map err (fetches L s c) = [Some x]"
    by (rule BrokerInfo_error_origin)
  then obtain c where c: "map err (fetches L s c) = [Some x]" by (elim exE conjE)
  have "c = a \<or> c = b"
  proof (rule ccontr)
    assume "\<not> (c = a \<or> c = b)"
    with assms(5) have "map err (fetches L s c) = [None]" by simp
    with c show False by simp
  qed
  then have "x = ea \<or> x = eb"
  proof
    assume "c = a" with c assms(3) show ?thesis by simp
  next
    assume "c = b" with c assms(4) show ?thesis by simp
  qed
  then show ?thesis
  proof
    assume "x = ea"
    with retx have "BrokerInfo L s sched = Return (r, Some ea)" by simp
    then show ?thesis by (intro exI [of _ r] disjI1)
  next
    assume "x = eb"
    with retx have "BrokerInfo L s sched = Return (r, Some eb)" by simp
    then show ?thesis by (intro exI [of _ r] disjI2)
  qed
qed

text \<open>
  A broker whose \<open>/overview\<close> answers 503 and whose \<open>/queues\<close> resets the connection,
  taken in the order of the cases: the error returned is the one of \<open>/queues\<close>.
\<close>

theorem BrokerInfo_two_errors_witness:
  "overview \<noteq> queues \<and>
   map err (getOverview mock_lib (mock_client two_down))
     = [Some (errorString ''503 Service Unavailable'')] \<and>
   map err (getQueues mock_lib (mock_client two_down))
     = [Some (TransportError ''connection reset'')] \<and>
   (\<exists>r. BrokerInfo mock_lib (mock_client two_down) in_order
     = Return (r, Some (TransportError ''connection reset'')))"
proof -
  let ?s = "mock_client two_down"
  have fair: "set in_order = UNIV"
    by (simp add: in_order_def UNIV_chan_id)
  have ne: "overview \<noteq> queues" by simp
  have a: "map err (fetches mock_lib ?s overview) = [Some (errorString ''503 Service Unavailable'')]"
    by (simp add: mock_eval two_down_def)
  have b: "map err (fetches mock_lib ?s queues) = [Some (TransportError ''connection reset'')]"
    by (simp add: mock_eval two_down_def)
  have rest: "\<forall>c. c \<noteq> overview \<longrightarrow> c \<noteq> queues \<longrightarrow> map err (fetches mock_lib ?s c) = [None]"
  proof (intro allI impI)
    fix c :: chan_id assume "c \<noteq> overview" "c \<noteq> queues"
    then show "map err (fetches mock_lib ?s c) = [None]"
      by (cases c) (simp_all add: mock_eval two_down_def)
  qed
  have other: "BrokerInfo mock_lib ?s in_order
                 \<noteq> Return (r, Some (errorString ''503 Service Unavailable''))" for r
    by (simp add: mock_eval two_down_def)
  from BrokerInfo_two_errors [OF fair ne a b rest]
  obtain r where r: "BrokerInfo mock_lib ?s in_order
                       = Return (r, Some (errorString ''503 Service Unavailable'')) \<or>
                     BrokerInfo mock_lib ?s in_order
                       = Return (r, Some (TransportError ''connection reset''))" ..
  from r have "BrokerInfo mock_lib ?s in_order
                 = Return (r, Some (TransportError ''connection reset''))"
  proof (rule disjE)
    assume x: "BrokerInfo mock_lib ?s in_order
                 = Return (r, Some (errorString ''503 Service Unavailable''))"
    from other [of r] x show ?thesis by (rule notE)
  next
    assume "BrokerInfo mock_lib ?s in_order
              = Return (r, Some (TransportError ''connection reset''))"
    then show ?thesis .
  qed
  then have c: "\<exists>r. BrokerInfo mock_lib ?s in_order
                 = Return (r, Some (TransportError ''connection reset''))"
    by (rule exI [where x = r])
  have a': "map err (getOverview mock_lib ?s) = [Some (errorString ''503 Service Unavailable'')]"
    using a by (simp add: fetches_def)
  have b': "map err (getQueues mock_lib ?s) = [Some (TransportError ''connection reset'')]"
    using b by (simp add: fetches_def)
  from ne a' b' c show ?thesis by (intro conjI)
qed

text \<open>
  Claim C1 says that an error of any of the six fetches is returned by \<open>BrokerInfo\<close>.
  The code does this for five of them and not for \<open>/overview\<close>: here \<open>/overview\<close>
  answers 503, its fetch ends with the error \<open>503 Service Unavailable\<close> and is the first
  one received, and \<open>BrokerInfo\<close> goes on and returns a nil error.
\<close>

theorem BrokerInfo_drops_overview_error:
  "map err (getOverview mock_lib (mock_client
      ((''mq/overview'', reply 503 ''503 Service Unavailable'' []) # healthy_lists)))
     = [Some (errorString ''503 Service Unavailable'')] \<and>
   BrokerInfo mock_lib (mock_client
      ((''mq/overview'', reply 503 ''503 Service Unavailable'' []) # healthy_lists)) in_order =
     Return (\<lparr>Overview = [], Connections = [''a'', ''b''], Exchanges = [''a'', ''b''],
              Queues = [''a'', ''b''], Consumers = [], Bindings = [''a'', ''b'']\<rparr>, None)"
  by (simp add: mock_eval)

text \<open>
  Claim C2 says that a nil error comes with a complete value: every field decoded by a
  successful fetch. Here the connection to \<open>/overview\<close> is refused and the other five
  fetches succeed, with \<open>/overview\<close> received last: \<open>BrokerInfo\<close> returns a nil error
  and a value whose field \<open>Overview\<close> is the zero value, which no fetch decoded.
\<close>

theorem BrokerInfo_partial_with_nil_error:
  "map err (getOverview mock_lib (mock_client healthy_lists))
     = [Some (TransportError ''connection refused'')] \<and>
   BrokerInfo mock_lib (mock_client healthy_lists)
       [bindings, consumers, queues, exchanges, connections, overview] =
     Return (\<lparr>Overview = zero_RabbitOverview mock_lib, Connections = [''a'', ''b''],
              Exchanges = [''a'', ''b''], Queues = [''a'', ''b''], Consumers = [],
              Bindings = [''a'', ''b'']\<rparr>, None)"
  by (simp add: mock_eval)

end
